theory Spec2Isabelle
  imports Complex_Main "HOL-Library.Log_Nat"
begin

section \<open>JavaScript values used by the services\<close>

text \<open>
  Strings are \<^typ>\<open>string\<close>. An absent (\<^verbatim>\<open>undefined\<close>) property is \<open>None\<close>.
  \<open>toLowerCase\<close> is modelled on the ASCII letters, which is where every keyword
  the services search for lives.
\<close>

definition toLowerChar :: "char \<Rightarrow> char" where
  "toLowerChar c =
     (case map_of (zip ''ABCDEFGHIJKLMNOPQRSTUVWXYZ'' ''abcdefghijklmnopqrstuvwxyz'') c of
        Some l \<Rightarrow> l
      | None \<Rightarrow> c)"

definition toLowerCase :: "string \<Rightarrow> string" where
  "toLowerCase s = map toLowerChar s"

fun startsWith :: "string \<Rightarrow> string \<Rightarrow> bool" where
  "startsWith s [] = True"
| "startsWith [] (p # ps) = False"
| "startsWith (c # cs) (p # ps) = (c = p \<and> startsWith cs ps)"

text \<open>\<^verbatim>\<open>s.includes(p)\<close>: \<open>p\<close> occurs in \<open>s\<close> as a contiguous substring.\<close>

fun js_includes :: "string \<Rightarrow> string \<Rightarrow> bool" where
  "js_includes [] p = (p = [])"
| "js_includes (c # cs) p = (startsWith (c # cs) p \<or> js_includes cs p)"

text \<open>Template literals print an integral number in decimal, with a sign when negative.\<close>

function string_of_nat :: "nat \<Rightarrow> string" where
  "string_of_nat n =
     (if n < 10 then [''0123456789'' ! n]
      else string_of_nat (n div 10) @ [''0123456789'' ! (n mod 10)])"
  by pat_completeness auto
termination
  by (relation "measure id") auto

declare string_of_nat.simps [simp del]

definition string_of_int :: "int \<Rightarrow> string" where
  "string_of_int i = (if i < 0 then CHR ''-'' # string_of_nat (nat (- i)) else string_of_nat (nat i))"

text \<open>Truthiness of an optional string: \<^verbatim>\<open>undefined\<close> and \<^verbatim>\<open>''\<close> are falsy.\<close>

definition truthy :: "string option \<Rightarrow> bool" where
  "truthy v = (case v of None \<Rightarrow> False | Some s \<Rightarrow> s \<noteq> [])"

text \<open>\<^verbatim>\<open>a || d\<close> with a string default, and \<^verbatim>\<open>a || b\<close> between two optional strings.\<close>

definition or_default :: "string option \<Rightarrow> string \<Rightarrow> string" where
  "or_default v d = (case v of None \<Rightarrow> d | Some s \<Rightarrow> if s = [] then d else s)"

definition or_else :: "string option \<Rightarrow> string option \<Rightarrow> string option" where
  "or_else a b = (if truthy a then a else b)"

text \<open>
  A thrown \<^verbatim>\<open>Error\<close> object: its \<^verbatim>\<open>name\<close>, its \<^verbatim>\<open>message\<close>, and whether it is an
  instance of \<^verbatim>\<open>TypeError\<close>. Everything the provider calls throw is such an object:
  \<^verbatim>\<open>new Error(...)\<close>, the \<^verbatim>\<open>TypeError\<close> of a failed \<^verbatim>\<open>fetch\<close>, the \<^verbatim>\<open>AbortError\<close>
  of an aborted one, the \<^verbatim>\<open>SyntaxError\<close> of \<^verbatim>\<open>response.json()\<close>.
\<close>

record js_error =
  err_name :: string
  err_message :: string
  is_TypeError :: bool

definition new_Error :: "string \<Rightarrow> js_error" where
  "new_Error msg = \<lparr>err_name = ''Error'', err_message = msg, is_TypeError = False\<rparr>"

section \<open>Configuration\<close>

record env =
  VITE_USE_CHATPDF :: "string option"
  VITE_CHATPDF_ACCESS_KEY :: "string option"

section \<open>Data model\<close>

type_synonym bbox = "int list"

text \<open>An element of \<^verbatim>\<open>BackendResponse.sources\<close>; every field may be absent at run time.\<close>

record raw_source =
  rs_section :: "string option"
  rs_page :: "int option"
  rs_content :: "string option"
  rs_exactText :: "string option"
  rs_relevance :: "string option"
  rs_context :: "string option"
  rs_highlightURL :: "string option"
  rs_bboxes :: "bbox list option"
  rs_name :: "string option"

datatype provider = primary | chatpdf | mock

record BackendResponse =
  br_response :: string
  br_sources :: "raw_source list option"
  br_source :: provider
  br_timestamp :: nat

record BackendError =
  be_error :: string
  be_source :: provider
  be_canRetry :: bool
  be_suggestFallback :: bool

record documentData =
  document_name :: "string option"
  document_url :: "string option"
  file_url :: "string option"
  file_size :: "nat option"
  mime_type :: "string option"

record QueryOptions =
  qo_message :: string
  qo_documentId :: string
  qo_documentData :: "documentData option"
  qo_userId :: string
  qo_limit :: "nat option"
  qo_timeout :: "nat option"

record DocumentInfo =
  di_id :: string
  di_name :: string
  di_url :: "string option"
  di_file_size :: "nat option"
  di_mime_type :: "string option"

datatype relevance = high | medium | low

text \<open>An element of \<^verbatim>\<open>ChatPDFQueryResponse.sources\<close>, as the interface declares it.\<close>

record chatpdf_source =
  cs_page :: int
  cs_section :: "string option"
  cs_exactText :: string
  cs_relevance :: relevance
  cs_context :: string
  cs_highlightURL :: "string option"
  cs_bboxes :: "bbox list option"
  cs_name :: "string option"

text \<open>
  A page reference of the provider's reply. The wire contract has \<^verbatim>\<open>pageNumber\<close> only;
  the degrade path also reads \<^verbatim>\<open>name\<close> and \<^verbatim>\<open>bboxes\<close> when they are present.
\<close>

record reference =
  pageNumber :: int
  ref_name :: "string option"
  ref_bboxes :: "bbox list option"

record ChatPDFQueryResponse =
  cq_content :: string
  cq_references :: "reference list option"
  cq_sources :: "chatpdf_source list option"

text \<open>The JSON body of a failed provider reply, and of a successful chat reply.\<close>

record ChatPDFError =
  ce_error :: "string option"
  ce_message :: "string option"

record chat_json =
  cj_content :: string
  cj_references :: "reference list option"

record primary_json =
  pj_response :: "string option"
  pj_sources :: "raw_source list option"

section \<open>The network\<close>

text \<open>
  What a \<^verbatim>\<open>fetch\<close> can do: reject; resolve with a response that is not \<^verbatim>\<open>ok\<close>
  (status, status text, and what \<^verbatim>\<open>response.json()\<close> gives); or resolve with an
  \<^verbatim>\<open>ok\<close> response (and what \<^verbatim>\<open>response.json()\<close> gives).
\<close>

datatype 'd fetch_outcome =
    FetchRejected js_error
  | HttpNotOk nat string "js_error + ChatPDFError"
  | HttpOk "js_error + 'd"

text \<open>The requests the services issue, in the order they are issued.\<close>

datatype call =
    PrimaryQuery string string string nat
  | AddUrl string
  | ChatMessage string string
  | ExtractSources string

text \<open>
  The outside world answers each request; its answer may depend on every request made
  so far. \<open>extract_sources\<close> is the citation extraction service, which lives outside
  these files: it resolves with a list of sources or rejects.
\<close>

record world =
  primary_query :: "call list \<Rightarrow> primary_json fetch_outcome"
  add_url :: "call list \<Rightarrow> string fetch_outcome"
  chat_message :: "call list \<Rightarrow> chat_json fetch_outcome"
  extract_sources :: "call list \<Rightarrow> js_error + chatpdf_source list"

section \<open>The third-party document-chat client\<close>

text \<open>
  The client object: its key and its cache from document id to source id. The module
  keeps one instance (a singleton, \<^verbatim>\<open>null\<close> until first asked for); the state of the
  program is that singleton and the log of requests issued.
\<close>

record ChatPDFService =
  apiKey :: string
  sourceCache :: "string \<rightharpoonup> string"

record state =
  chatPDFService :: "ChatPDFService option"
  calls :: "call list"

text \<open>The text of \<^verbatim>\<open>${error.message || error.error}\<close>.\<close>

definition error_text :: "ChatPDFError \<Rightarrow> string" where
  "error_text error =
     (if truthy (ce_message error) then or_default (ce_message error) []
      else (case ce_error error of None \<Rightarrow> ''undefined'' | Some s \<Rightarrow> s))"

definition uploadDocumentByUrl :: "world \<Rightarrow> string \<Rightarrow> call list \<Rightarrow> (js_error + string) \<times> call list" where
  "uploadDocumentByUrl w documentUrl cs =
     (let cs' = cs @ [AddUrl documentUrl] in
      case add_url w cs' of
        FetchRejected e \<Rightarrow> (Inl e, cs')
      | HttpNotOk status statusText body \<Rightarrow>
          (case body of
             Inl e \<Rightarrow> (Inl e, cs')
           | Inr error \<Rightarrow> (Inl (new_Error (''ChatPDF Upload Error: '' @ error_text error)), cs'))
      | HttpOk body \<Rightarrow>
          (case body of
             Inl e \<Rightarrow> (Inl e, cs')
           | Inr sourceId \<Rightarrow> (Inr sourceId, cs')))"

text \<open>
  \<open>getSourceId\<close>: the cached source id when the cache has the document; otherwise an
  upload by URL, whose result is cached. It returns the client as it is afterwards.
\<close>

definition getSourceId ::
  "world \<Rightarrow> DocumentInfo \<Rightarrow> ChatPDFService \<Rightarrow> call list \<Rightarrow> (js_error + string) \<times> ChatPDFService \<times> call list" where
  "getSourceId w document svc cs =
     (case sourceCache svc (di_id document) of
        Some cachedSourceId \<Rightarrow> (Inr cachedSourceId, svc, cs)
      | None \<Rightarrow>
          (case di_url document of
             None \<Rightarrow> (Inl (new_Error ''Document URL is required for ChatPDF upload''), svc, cs)
           | Some url \<Rightarrow>
               if url = [] then (Inl (new_Error ''Document URL is required for ChatPDF upload''), svc, cs)
               else
                 (case uploadDocumentByUrl w url cs of
                    (Inl e, cs') \<Rightarrow> (Inl e, svc, cs')
                  | (Inr sourceId, cs') \<Rightarrow>
                      (Inr sourceId,
                       svc\<lparr>sourceCache := (sourceCache svc)(di_id document \<mapsto> sourceId)\<rparr>,
                       cs'))))"

definition clearCache :: "ChatPDFService \<Rightarrow> ChatPDFService" where
  "clearCache svc = svc\<lparr>sourceCache := Map.empty\<rparr>"

definition isAvailable :: "ChatPDFService \<Rightarrow> bool" where
  "isAvailable svc = (apiKey svc \<noteq> [] \<and> 0 < length (apiKey svc))"

text \<open>The options of \<open>queryDocument\<close> that decide what it returns.\<close>

record queryDocument_options =
  extractSources :: "bool option"
  documentInfo :: "DocumentInfo option"

text \<open>The coarse citation the degrade path makes of one page reference.\<close>

definition basic_page_reference :: "DocumentInfo option \<Rightarrow> reference \<Rightarrow> chatpdf_source" where
  "basic_page_reference info ref =
     \<lparr>cs_page = pageNumber ref,
      cs_section = Some (''Page '' @ string_of_int (pageNumber ref)),
      cs_exactText = ''Content from page '' @ string_of_int (pageNumber ref),
      cs_relevance = medium,
      cs_context = ''Basic page reference from ChatPDF'',
      cs_highlightURL = (case info of None \<Rightarrow> None | Some d \<Rightarrow> di_url d),
      cs_bboxes = ref_bboxes ref,
      cs_name = (if truthy (ref_name ref) then ref_name ref
                 else (case info of None \<Rightarrow> None | Some d \<Rightarrow> Some (di_name d)))\<rparr>"

definition references_or_empty :: "reference list option \<Rightarrow> reference list" where
  "references_or_empty rs = (case rs of None \<Rightarrow> [] | Some xs \<Rightarrow> xs)"

definition queryDocument ::
  "world \<Rightarrow> string \<Rightarrow> string \<Rightarrow> queryDocument_options option \<Rightarrow> call list
     \<Rightarrow> (js_error + ChatPDFQueryResponse) \<times> call list" where
  "queryDocument w sourceId question options cs =
     (let cs1 = cs @ [ChatMessage sourceId question] in
      case chat_message w cs1 of
        FetchRejected e \<Rightarrow> (Inl e, cs1)
      | HttpNotOk status statusText body \<Rightarrow>
          (case body of
             Inl e \<Rightarrow> (Inl e, cs1)
           | Inr error \<Rightarrow> (Inl (new_Error (''ChatPDF Query Error: '' @ error_text error)), cs1))
      | HttpOk body \<Rightarrow>
          (case body of
             Inl e \<Rightarrow> (Inl e, cs1)
           | Inr data \<Rightarrow>
               (let baseResponse =
                      \<lparr>cq_content = cj_content data,
                       cq_references = Some (references_or_empty (cj_references data)),
                       cq_sources = None\<rparr>
                in
                case options of
                  None \<Rightarrow> (Inr baseResponse, cs1)
                | Some opts \<Rightarrow>
                    if extractSources opts = Some True \<and> documentInfo opts \<noteq> None then
                      (let cs2 = cs1 @ [ExtractSources question] in
                       case extract_sources w cs2 of
                         Inr sources \<Rightarrow> (Inr (baseResponse\<lparr>cq_sources := Some sources\<rparr>), cs2)
                       | Inl extractError \<Rightarrow>
                           (Inr (baseResponse\<lparr>cq_sources :=
                                   Some (map (basic_page_reference (documentInfo opts))
                                           (references_or_empty (cj_references data)))\<rparr>),
                            cs2))
                    else (Inr baseResponse, cs1))))"

text \<open>The module-level accessors of the configuration.\<close>

definition getChatPDFService :: "env \<Rightarrow> state \<Rightarrow> ChatPDFService option \<times> state" where
  "getChatPDFService ev st =
     (case VITE_CHATPDF_ACCESS_KEY ev of
        None \<Rightarrow> (None, st)
      | Some key \<Rightarrow>
          if key = [] then (None, st)
          else
            (case chatPDFService st of
               None \<Rightarrow>
                 (let svc = \<lparr>apiKey = key, sourceCache = Map.empty\<rparr>
                  in (Some svc, st\<lparr>chatPDFService := Some svc\<rparr>))
             | Some svc \<Rightarrow> (Some svc, st)))"

definition isChatPDFEnabled :: "env \<Rightarrow> bool" where
  "isChatPDFEnabled ev =
     (let useChatPDF = (VITE_USE_CHATPDF ev = Some ''true'');
          hasApiKey = truthy (VITE_CHATPDF_ACCESS_KEY ev)
      in useChatPDF \<and> hasApiKey)"

definition shouldUseChatPDFAsPrimary :: "env \<Rightarrow> bool" where
  "shouldUseChatPDFAsPrimary ev = (VITE_USE_CHATPDF ev = Some ''true'')"

section \<open>The fallback orchestrator\<close>

text \<open>What \<open>query\<close> rejects with: an \<^verbatim>\<open>Error\<close> passed on, or a structured backend error.\<close>

datatype thrown = ThrownError js_error | ThrownBackendError BackendError

record primary_result =
  pr_response :: string
  pr_sources :: "raw_source list"

definition requestTimeout :: nat where
  "requestTimeout = 120000"

definition queryPrimaryBackend ::
  "world \<Rightarrow> string \<Rightarrow> string \<Rightarrow> string \<Rightarrow> nat \<Rightarrow> nat \<Rightarrow> call list
     \<Rightarrow> (js_error + primary_result) \<times> call list" where
  "queryPrimaryBackend w message documentId userId limit timeout cs =
     (let cs' = cs @ [PrimaryQuery message documentId userId limit] in
      case primary_query w cs' of
        FetchRejected e \<Rightarrow> (Inl e, cs')
      | HttpNotOk status statusText body \<Rightarrow>
          (Inl (new_Error (''Primary backend error: '' @ string_of_nat status @ '' '' @ statusText)), cs')
      | HttpOk body \<Rightarrow>
          (case body of
             Inl e \<Rightarrow> (Inl e, cs')
           | Inr responseJson \<Rightarrow>
               (Inr \<lparr>pr_response = or_default (pj_response responseJson) ''No response received'',
                     pr_sources = (case pj_sources responseJson of None \<Rightarrow> [] | Some xs \<Rightarrow> xs)\<rparr>,
                cs')))"

text \<open>\<open>shouldUseFallback\<close>: the three checks of the source, in its order.\<close>

definition shouldUseFallback :: "js_error \<Rightarrow> bool" where
  "shouldUseFallback error =
     (if err_name error = ''AbortError'' \<or> err_name error = ''TimeoutError'' then True
      else if err_message error \<noteq> [] \<and>
              (let message = toLowerCase (err_message error) in
                 js_includes message ''500'' \<or>
                 js_includes message ''502'' \<or>
                 js_includes message ''503'' \<or>
                 js_includes message ''504'' \<or>
                 js_includes message ''network'' \<or>
                 js_includes message ''timeout'' \<or>
                 js_includes message ''connection'')
           then True
      else if is_TypeError error \<and> js_includes (err_message error) ''fetch'' then True
      else False)"

definition createBackendError :: "env \<Rightarrow> js_error \<Rightarrow> provider \<Rightarrow> state \<Rightarrow> BackendError \<times> state" where
  "createBackendError ev error source st =
     (let errorMessage = err_message error;
          (available, st') =
             (if source = primary then
                (case getChatPDFService ev st of (svc, st1) \<Rightarrow> (svc \<noteq> None, st1))
              else (False, st))
      in (\<lparr>be_error = errorMessage,
           be_source = source,
           be_canRetry = shouldUseFallback error,
           be_suggestFallback = available\<rparr>, st'))"

definition createFallbackError :: "js_error \<Rightarrow> js_error \<Rightarrow> BackendError" where
  "createFallbackError primaryError fallbackError =
     (let primaryMsg = err_message primaryError;
          fallbackMsg = err_message fallbackError
      in \<lparr>be_error = ''Both services failed. Primary: '' @ primaryMsg @ ''. Fallback: '' @ fallbackMsg,
          be_source = primary,
          be_canRetry = False,
          be_suggestFallback = False\<rparr>)"

definition string_of_relevance :: "relevance \<Rightarrow> string" where
  "string_of_relevance r = (case r of high \<Rightarrow> ''high'' | medium \<Rightarrow> ''medium'' | low \<Rightarrow> ''low'')"

definition nonempty_bboxes :: "bbox list option \<Rightarrow> bbox list option" where
  "nonempty_bboxes b = (case b of None \<Rightarrow> None | Some xs \<Rightarrow> if 0 < length xs then Some xs else None)"

text \<open>The two maps of \<open>queryWithChatPDF\<close>: over enhanced sources, and over page references.\<close>

definition enhanced_source :: "chatpdf_source \<Rightarrow> raw_source" where
  "enhanced_source source =
     \<lparr>rs_section = Some (or_default (cs_section source) (''Page '' @ string_of_int (cs_page source))),
      rs_page = Some (cs_page source),
      rs_content = Some (cs_exactText source),
      rs_exactText = Some (cs_exactText source),
      rs_relevance = Some (string_of_relevance (cs_relevance source)),
      rs_context = Some (cs_context source),
      rs_highlightURL = cs_highlightURL source,
      rs_bboxes = nonempty_bboxes (cs_bboxes source),
      rs_name = Some (case cs_name source of None \<Rightarrow> ''Unknown'' | Some n \<Rightarrow> n)\<rparr>"

definition basic_reference :: "DocumentInfo \<Rightarrow> reference \<Rightarrow> raw_source" where
  "basic_reference info ref =
     (let highlightURL =
            (if truthy (di_url info)
             then Some (or_default (di_url info) [] @ ''#page='' @ string_of_int (pageNumber ref))
             else None)
      in \<lparr>rs_section = Some (''Page '' @ string_of_int (pageNumber ref)),
          rs_page = Some (pageNumber ref),
          rs_content = Some (''Content from page '' @ string_of_int (pageNumber ref)),
          rs_exactText = None,
          rs_relevance = None,
          rs_context = None,
          rs_highlightURL = highlightURL,
          rs_bboxes = None,
          rs_name = None\<rparr>)"

definition transform_sources :: "DocumentInfo \<Rightarrow> ChatPDFQueryResponse \<Rightarrow> raw_source list" where
  "transform_sources info chatPDFResponse =
     (case cq_sources chatPDFResponse of
        Some sources \<Rightarrow> map enhanced_source sources
      | None \<Rightarrow>
          (case cq_references chatPDFResponse of
             Some refs \<Rightarrow> map (basic_reference info) refs
           | None \<Rightarrow> []))"

definition make_documentInfo :: "string \<Rightarrow> documentData option \<Rightarrow> DocumentInfo" where
  "make_documentInfo documentId dd =
     \<lparr>di_id = documentId,
      di_name = or_default (case dd of None \<Rightarrow> None | Some d \<Rightarrow> document_name d) (''Document '' @ documentId),
      di_url = (case dd of None \<Rightarrow> None | Some d \<Rightarrow> or_else (document_url d) (file_url d)),
      di_file_size = (case dd of None \<Rightarrow> None | Some d \<Rightarrow> file_size d),
      di_mime_type = (case dd of None \<Rightarrow> None | Some d \<Rightarrow> mime_type d)\<rparr>"

definition queryWithChatPDF ::
  "env \<Rightarrow> world \<Rightarrow> nat \<Rightarrow> string \<Rightarrow> string \<Rightarrow> documentData option \<Rightarrow> state
     \<Rightarrow> (js_error + BackendResponse) \<times> state" where
  "queryWithChatPDF ev w now message documentId dd st =
     (case getChatPDFService ev st of
        (None, st1) \<Rightarrow> (Inl (new_Error ''ChatPDF service is not available''), st1)
      | (Some svc, st1) \<Rightarrow>
          (let info = make_documentInfo documentId dd in
           if \<not> truthy (di_url info)
           then (Inl (new_Error ''Document URL is required for ChatPDF processing''), st1)
           else
             (case getSourceId w info svc (calls st1) of
                (Inl e, svc', cs') \<Rightarrow> (Inl e, st1\<lparr>chatPDFService := Some svc', calls := cs'\<rparr>)
              | (Inr sourceId, svc', cs') \<Rightarrow>
                  (case queryDocument w sourceId message
                          (Some \<lparr>extractSources = Some True, documentInfo = Some info\<rparr>) cs' of
                     (Inl e, cs'') \<Rightarrow> (Inl e, st1\<lparr>chatPDFService := Some svc', calls := cs''\<rparr>)
                   | (Inr chatPDFResponse, cs'') \<Rightarrow>
                       (Inr \<lparr>br_response = cq_content chatPDFResponse,
                             br_sources = Some (transform_sources info chatPDFResponse),
                             br_source = chatpdf,
                             br_timestamp = now\<rparr>,
                        st1\<lparr>chatPDFService := Some svc', calls := cs''\<rparr>)))))"

text \<open>
  \<open>query\<close>, the entry point. \<open>now\<close> is what \<^verbatim>\<open>Date.now()\<close> returns when the response
  is built.
\<close>

definition effective_limit :: "QueryOptions \<Rightarrow> nat" where
  "effective_limit options = (case qo_limit options of None \<Rightarrow> 5 | Some l \<Rightarrow> l)"

definition effective_timeout :: "QueryOptions \<Rightarrow> nat" where
  "effective_timeout options =
     (case qo_timeout options of None \<Rightarrow> requestTimeout | Some t \<Rightarrow> if t = 0 then requestTimeout else t)"

definition query :: "env \<Rightarrow> world \<Rightarrow> nat \<Rightarrow> QueryOptions \<Rightarrow> state \<Rightarrow> (thrown + BackendResponse) \<times> state" where
  "query ev w now options st =
     (let message = qo_message options;
          documentId = qo_documentId options;
          dd = qo_documentData options;
          userId = qo_userId options;
          limit = effective_limit options;
          timeout = effective_timeout options
      in
      if shouldUseChatPDFAsPrimary ev then
        (case queryWithChatPDF ev w now message documentId dd st of
           (Inl e, st') \<Rightarrow> (Inl (ThrownError e), st')
         | (Inr r, st') \<Rightarrow> (Inr r, st'))
      else
        (case queryPrimaryBackend w message documentId userId limit timeout (calls st) of
           (Inr response, cs) \<Rightarrow>
             (Inr \<lparr>br_response = pr_response response,
                   br_sources = Some (pr_sources response),
                   br_source = primary,
                   br_timestamp = now\<rparr>,
              st\<lparr>calls := cs\<rparr>)
         | (Inl primaryError, cs) \<Rightarrow>
             (case getChatPDFService ev (st\<lparr>calls := cs\<rparr>) of
                (svc, st1) \<Rightarrow>
                  if svc \<noteq> None \<and> shouldUseFallback primaryError then
                    (case queryWithChatPDF ev w now message documentId dd st1 of
                       (Inr r, st2) \<Rightarrow> (Inr r, st2)
                     | (Inl fallbackError, st2) \<Rightarrow>
                         (Inl (ThrownBackendError (createFallbackError primaryError fallbackError)), st2))
                  else
                    (case createBackendError ev primaryError primary st1 of
                       (err, st2) \<Rightarrow> (Inl (ThrownBackendError err), st2)))))"

text \<open>The requests that went to the third-party provider.\<close>

fun is_chatpdf_call :: "call \<Rightarrow> bool" where
  "is_chatpdf_call (AddUrl u) = True"
| "is_chatpdf_call (ChatMessage s q) = True"
| "is_chatpdf_call (PrimaryQuery m d u l) = False"
| "is_chatpdf_call (ExtractSources q) = False"

definition chatpdf_calls :: "call list \<Rightarrow> call list" where
  "chatpdf_calls cs = filter is_chatpdf_call cs"

fun is_upload :: "call \<Rightarrow> bool" where
  "is_upload (AddUrl u) = True"
| "is_upload (ChatMessage s q) = False"
| "is_upload (PrimaryQuery m d u l) = False"
| "is_upload (ExtractSources q) = False"

definition uploads :: "call list \<Rightarrow> nat" where
  "uploads cs = length (filter is_upload cs)"

section \<open>JavaScript numbers\<close>

text \<open>
  A JavaScript number is an IEEE 754 binary64 value: a finite double (a rational), an
  infinity, or \<^verbatim>\<open>NaN\<close>. The sign of zero is not modelled. Every arithmetic operation
  computes the exact result and rounds it to the nearest double, ties to even.

  \<open>ilog2 x\<close> is the binary exponent of a positive \<open>x\<close>: \<open>2 powi ilog2 x \<le> x < 2 powi (ilog2 x + 1)\<close>.
\<close>

definition ilog2 :: "rat \<Rightarrow> int" where
  "ilog2 x = (if 1 \<le> x then bitlen \<lfloor>x\<rfloor> - 1 else - bitlen (\<lceil>1 / x\<rceil> - 1))"

definition round_half_even :: "rat \<Rightarrow> int" where
  "round_half_even y =
     (let f = \<lfloor>y\<rfloor>; d = y - of_int f
      in if d < 1 / 2 then f else if 1 / 2 < d then f + 1 else if even f then f else f + 1)"

text \<open>
  The nearest double with the exponent unbounded above: 53 significant bits for a
  normal number, multiples of \<open>2 powi - 1074\<close> below \<open>2 powi - 1022\<close>.
\<close>

definition nearest_double :: "rat \<Rightarrow> rat" where
  "nearest_double x =
     (if x = 0 then 0
      else (let e = max (ilog2 \<bar>x\<bar>) (- 1022); q = 2 powi (e - 52)
            in sgn x * of_int (round_half_even (\<bar>x\<bar> / q)) * q))"

datatype number = Finite rat | PosInfinity | NegInfinity | NaN

text \<open>Rounding an exact result: beyond the largest double it overflows to an infinity.\<close>

definition to_number :: "rat \<Rightarrow> number" where
  "to_number x =
     (let r = nearest_double x
      in if 2 ^ 1024 \<le> r then PosInfinity else if r \<le> - (2 ^ 1024) then NegInfinity else Finite r)"

definition sign_of :: "number \<Rightarrow> rat" where
  "sign_of a = (case a of Finite x \<Rightarrow> sgn x | PosInfinity \<Rightarrow> 1 | NegInfinity \<Rightarrow> - 1 | NaN \<Rightarrow> 0)"

definition signed_infinity :: "rat \<Rightarrow> number" where
  "signed_infinity s = (if 0 < s then PosInfinity else if s < 0 then NegInfinity else NaN)"

definition js_multiply :: "number \<Rightarrow> number \<Rightarrow> number" where
  "js_multiply a b =
     (if a = NaN \<or> b = NaN then NaN
      else (case (a, b) of
              (Finite x, Finite y) \<Rightarrow> to_number (x * y)
            | _ \<Rightarrow> signed_infinity (sign_of a * sign_of b)))"

definition js_add :: "number \<Rightarrow> number \<Rightarrow> number" where
  "js_add a b =
     (if a = NaN \<or> b = NaN then NaN
      else (case (a, b) of
              (Finite x, Finite y) \<Rightarrow> to_number (x + y)
            | (Finite x, _) \<Rightarrow> b
            | (_, Finite y) \<Rightarrow> a
            | _ \<Rightarrow> if a = b then a else NaN))"

definition js_divide :: "number \<Rightarrow> number \<Rightarrow> number" where
  "js_divide a b =
     (if a = NaN \<or> b = NaN then NaN
      else (case (a, b) of
              (Finite x, Finite y) \<Rightarrow> if y = 0 then signed_infinity (sgn x) else to_number (x / y)
            | (Finite x, _) \<Rightarrow> Finite 0
            | (_, Finite y) \<Rightarrow> signed_infinity (sign_of a * (if y = 0 then 1 else sgn y))
            | _ \<Rightarrow> NaN))"

text \<open>A token count, as the number the adapter receives.\<close>

definition number_of_nat :: "nat \<Rightarrow> number" where
  "number_of_nat n = to_number (of_nat n)"

section \<open>The unified response adapter\<close>

record UnifiedSource =
  us_page :: int
  us_section :: string
  us_exactText :: string
  us_relevance :: string
  us_context :: string
  us_highlightURL :: string
  us_bboxes :: "bbox list option"
  us_name :: "string option"

record UnifiedAIResponse =
  ur_response :: string
  ur_sources :: "UnifiedSource list"
  ur_source :: string
  ur_timestamp :: nat
  ur_cost :: "number option"
  ur_model :: "string option"

text \<open>What the adapters are given (typed \<^verbatim>\<open>any\<close> in the source): the fields they read.\<close>

record any_response =
  ar_response :: string
  ar_sources :: "raw_source list option"
  ar_source :: "string option"
  ar_timestamp :: "nat option"
  ar_cost :: "number option"
  ar_model :: "string option"

definition page_or_zero :: "int option \<Rightarrow> int" where
  "page_or_zero p = (case p of None \<Rightarrow> 0 | Some n \<Rightarrow> if n = 0 then 0 else n)"

definition timestamp_or_now :: "nat option \<Rightarrow> nat \<Rightarrow> nat" where
  "timestamp_or_now t now = (case t of None \<Rightarrow> now | Some n \<Rightarrow> if n = 0 then now else n)"

text \<open>\<^verbatim>\<open>sources || []\<close>.\<close>

definition sources_or_empty :: "raw_source list option \<Rightarrow> raw_source list" where
  "sources_or_empty s = (case s of None \<Rightarrow> [] | Some xs \<Rightarrow> xs)"

definition adaptBackendSource :: "raw_source \<Rightarrow> UnifiedSource" where
  "adaptBackendSource source =
     \<lparr>us_page = page_or_zero (rs_page source),
      us_section = or_default (rs_section source) ''Document Section'',
      us_exactText = or_default (rs_exactText source) (or_default (rs_content source) []),
      us_relevance = or_default (rs_relevance source) ''medium'',
      us_context = or_default (rs_context source) ''Context from backend analysis'',
      us_highlightURL = or_default (rs_highlightURL source) [],
      us_bboxes = nonempty_bboxes (rs_bboxes source),
      us_name = Some (case rs_name source of None \<Rightarrow> ''Unknown'' | Some n \<Rightarrow> n)\<rparr>"

definition adaptBackendResponse :: "nat \<Rightarrow> any_response \<Rightarrow> UnifiedAIResponse" where
  "adaptBackendResponse now backendResponse =
     \<lparr>ur_response = ar_response backendResponse,
      ur_sources = map adaptBackendSource (sources_or_empty (ar_sources backendResponse)),
      ur_source = or_default (ar_source backendResponse) ''backend'',
      ur_timestamp = timestamp_or_now (ar_timestamp backendResponse) now,
      ur_cost = ar_cost backendResponse,
      ur_model = ar_model backendResponse\<rparr>"

text \<open>The text of \<^verbatim>\<open>${source.page}\<close> for a page that may be absent.\<close>

definition page_text :: "int option \<Rightarrow> string" where
  "page_text p = (case p of None \<Rightarrow> ''undefined'' | Some n \<Rightarrow> string_of_int n)"

definition adaptChatPDFSource :: "string \<Rightarrow> raw_source \<Rightarrow> UnifiedSource" where
  "adaptChatPDFSource documentUrl source =
     \<lparr>us_page = page_or_zero (rs_page source),
      us_section = or_default (rs_section source) ''Document Section'',
      us_exactText = or_default (rs_exactText source) (or_default (rs_content source) []),
      us_relevance = or_default (rs_relevance source) ''high'',
      us_context = or_default (rs_context source) ''Context from ChatPDF analysis'',
      us_highlightURL = or_default (rs_highlightURL source)
                          (documentUrl @ ''#page='' @ page_text (rs_page source)),
      us_bboxes = None,
      us_name = None\<rparr>"

definition adaptChatPDFResponse :: "nat \<Rightarrow> any_response \<Rightarrow> string \<Rightarrow> UnifiedAIResponse" where
  "adaptChatPDFResponse now chatPDFResponse documentUrl =
     \<lparr>ur_response = ar_response chatPDFResponse,
      ur_sources = map (adaptChatPDFSource documentUrl) (sources_or_empty (ar_sources chatPDFResponse)),
      ur_source = ''chatpdf'',
      ur_timestamp = timestamp_or_now (ar_timestamp chatPDFResponse) now,
      ur_cost = ar_cost chatPDFResponse,
      ur_model = Some ''ChatPDF + OpenAI GPT-4o-mini''\<rparr>"

text \<open>What \<open>adaptAnthropicResponse\<close> reads of the model's reply.\<close>

record citation_source =
  chunk_index :: "int option"

record claude_citation =
  cc_content :: "string option"
  cc_source :: "citation_source option"

record claude_response =
  cl_content :: string
  cl_citations :: "claude_citation list option"
  cl_model :: "string option"

definition citation_chunk_index :: "claude_citation \<Rightarrow> int option" where
  "citation_chunk_index citation = (case cc_source citation of None \<Rightarrow> None | Some src \<Rightarrow> chunk_index src)"

definition adaptAnthropicCitation :: "string \<Rightarrow> claude_citation \<Rightarrow> UnifiedSource" where
  "adaptAnthropicCitation documentUrl citation =
     \<lparr>us_page = page_or_zero (citation_chunk_index citation),
      us_section = ''Claude Citation'',
      us_exactText = or_default (cc_content citation) [],
      us_relevance = ''high'',
      us_context = ''Citation from Claude analysis'',
      us_highlightURL = documentUrl @ ''#page='' @ page_text (citation_chunk_index citation),
      us_bboxes = None,
      us_name = None\<rparr>"

definition adaptAnthropicResponse ::
  "nat \<Rightarrow> claude_response \<Rightarrow> string \<Rightarrow> nat \<Rightarrow> nat \<Rightarrow> UnifiedAIResponse" where
  "adaptAnthropicResponse now claudeResponse documentUrl inputTokens outputTokens =
     (let cost = js_divide
                   (js_add (js_multiply (number_of_nat inputTokens) (to_number (8 / 10)))
                           (js_multiply (number_of_nat outputTokens) (to_number 4)))
                   (to_number 1000000)
      in \<lparr>ur_response = cl_content claudeResponse,
          ur_sources = map (adaptAnthropicCitation documentUrl)
                         (case cl_citations claudeResponse of None \<Rightarrow> [] | Some xs \<Rightarrow> xs),
          ur_source = ''anthropic'',
          ur_timestamp = now,
          ur_cost = Some cost,
          ur_model = Some (or_default (cl_model claudeResponse) ''claude-3-5-haiku-20241022'')\<rparr>)"

section \<open>The specification's failure classification\<close>

text \<open>
  The classification as the specification words it: a cancellation or timeout signal,
  or a message that contains one of the keywords (case-insensitively), or a fetch-level
  \<^verbatim>\<open>TypeError\<close> whose message mentions \<^verbatim>\<open>fetch\<close>.
\<close>

definition retry_keywords :: "string list" where
  "retry_keywords = [''500'', ''502'', ''503'', ''504'', ''network'', ''timeout'', ''connection'']"

definition spec_isRetryable :: "js_error \<Rightarrow> bool" where
  "spec_isRetryable e =
     (err_name e = ''AbortError'' \<or> err_name e = ''TimeoutError'' \<or>
      (\<exists>k \<in> set retry_keywords. js_includes (toLowerCase (err_message e)) k) \<or>
      (is_TypeError e \<and> js_includes (err_message e) ''fetch''))"

section \<open>The specification's cost formula\<close>

text \<open>
  The cost as the specification words it,
  \<^verbatim>\<open>(inputTokens*rateIn + outputTokens*rateOut)/1e6\<close>, in the arithmetic of numbers.
\<close>

definition spec_cost :: "number \<Rightarrow> number \<Rightarrow> number \<Rightarrow> number \<Rightarrow> number" where
  "spec_cost rateIn rateOut inputTokens outputTokens =
     js_divide (js_add (js_multiply inputTokens rateIn) (js_multiply outputTokens rateOut))
               (to_number (10 ^ 6))"

text \<open>\<open>at_least r a\<close>: the number \<open>a\<close> is \<open>+\<infinity>\<close> or a finite double not below \<open>r\<close>.\<close>

definition at_least :: "rat \<Rightarrow> number \<Rightarrow> bool" where
  "at_least r a = (case a of Finite v \<Rightarrow> r \<le> v | PosInfinity \<Rightarrow> True | _ \<Rightarrow> False)"

section \<open>Sample inputs\<close>

text \<open>
  Concrete configurations, networks, documents and responses, at which the properties
  below are evaluated. In \<open>silent_world\<close> the network is down: every request is rejected
  the way a browser rejects a failed \<^verbatim>\<open>fetch\<close>. The other networks differ from it in one
  endpoint.
\<close>

definition failed_to_fetch :: js_error where
  "failed_to_fetch = \<lparr>err_name = ''TypeError'', err_message = ''Failed to fetch'', is_TypeError = True\<rparr>"

definition silent_world :: world where
  "silent_world =
     \<lparr>primary_query = (\<lambda>cs. FetchRejected failed_to_fetch),
      add_url = (\<lambda>cs. FetchRejected failed_to_fetch),
      chat_message = (\<lambda>cs. FetchRejected failed_to_fetch),
      extract_sources = (\<lambda>cs. Inl failed_to_fetch)\<rparr>"

definition initial_state :: state where
  "initial_state = \<lparr>chatPDFService = None, calls = []\<rparr>"

definition fallback_env :: env where
  "fallback_env = \<lparr>VITE_USE_CHATPDF = None, VITE_CHATPDF_ACCESS_KEY = Some ''sec_key''\<rparr>"

definition sample_options :: QueryOptions where
  "sample_options =
     \<lparr>qo_message = ''inclusion criteria'',
      qo_documentId = ''doc1'',
      qo_documentData = Some \<lparr>document_name = Some ''Protocol'',
                               document_url = Some ''https://files.example/protocol.pdf'',
                               file_url = None, file_size = None, mime_type = None\<rparr>,
      qo_userId = ''tok'',
      qo_limit = None,
      qo_timeout = None\<rparr>"

definition eligibility_source :: raw_source where
  "eligibility_source =
     \<lparr>rs_section = Some ''Eligibility'', rs_page = Some 3, rs_content = None, rs_exactText = None,
      rs_relevance = None, rs_context = None, rs_highlightURL = None, rs_bboxes = None, rs_name = None\<rparr>"

definition primary_up :: world where
  "primary_up = silent_world\<lparr>primary_query :=
      (\<lambda>cs. HttpOk (Inr \<lparr>pj_response = Some ''Adults aged 18 to 75'', pj_sources = Some [eligibility_source]\<rparr>))\<rparr>"

definition primary_unavailable :: world where
  "primary_unavailable = silent_world\<lparr>primary_query :=
      (\<lambda>cs. HttpNotOk 503 ''Service Unavailable'' (Inr \<lparr>ce_error = None, ce_message = None\<rparr>))\<rparr>"

definition page5 :: reference where
  "page5 = \<lparr>pageNumber = 5, ref_name = None, ref_bboxes = None\<rparr>"

definition primary_bad_request_closed :: world where
  "primary_bad_request_closed = silent_world\<lparr>primary_query :=
      (\<lambda>cs. HttpNotOk 400 ''Bad Request: connection closed'' (Inr \<lparr>ce_error = None, ce_message = None\<rparr>))\<rparr>"

definition assist_down_after_upload :: world where
  "assist_down_after_upload = silent_world\<lparr>
      add_url := (\<lambda>cs. HttpOk (Inr ''src_abc'')),
      chat_message := (\<lambda>cs. HttpOk (Inr \<lparr>cj_content = ''See page 5.'', cj_references = Some [page5]\<rparr>))\<rparr>"

definition no_key_env :: env where
  "no_key_env = \<lparr>VITE_USE_CHATPDF = None, VITE_CHATPDF_ACCESS_KEY = None\<rparr>"

definition forced_no_key_env :: env where
  "forced_no_key_env = \<lparr>VITE_USE_CHATPDF = Some ''true'', VITE_CHATPDF_ACCESS_KEY = None\<rparr>"

definition fresh_client :: ChatPDFService where
  "fresh_client = \<lparr>apiKey = ''sec_key'', sourceCache = Map.empty\<rparr>"

definition protocol_doc :: DocumentInfo where
  "protocol_doc =
     \<lparr>di_id = ''doc1'', di_name = ''Protocol'', di_url = Some ''https://files.example/protocol.pdf'',
      di_file_size = None, di_mime_type = None\<rparr>"

definition upload_ok :: world where
  "upload_ok = silent_world\<lparr>add_url := (\<lambda>cs. HttpOk (Inr ''src_abc''))\<rparr>"

definition no_url_doc :: DocumentInfo where
  "no_url_doc =
     \<lparr>di_id = ''doc2'', di_name = ''Draft'', di_url = None, di_file_size = None, di_mime_type = None\<rparr>"

definition assist_down :: world where
  "assist_down = silent_world\<lparr>chat_message :=
      (\<lambda>cs. HttpOk (Inr \<lparr>cj_content = ''See page 5.'', cj_references = Some [page5]\<rparr>))\<rparr>"

definition page_only_source :: raw_source where
  "page_only_source =
     \<lparr>rs_section = None, rs_page = Some 3, rs_content = None, rs_exactText = None,
      rs_relevance = None, rs_context = None, rs_highlightURL = None, rs_bboxes = Some [], rs_name = None\<rparr>"

definition negative_page_source :: raw_source where
  "negative_page_source =
     \<lparr>rs_section = Some ''Eligibility'', rs_page = Some (- 1), rs_content = None, rs_exactText = None,
      rs_relevance = None, rs_context = None, rs_highlightURL = None, rs_bboxes = None, rs_name = None\<rparr>"

definition response_with :: "raw_source list \<Rightarrow> any_response" where
  "response_with srcs =
     \<lparr>ar_response = ''Adults aged 18 to 75'', ar_sources = Some srcs, ar_source = Some ''primary'',
      ar_timestamp = Some 1000, ar_cost = None, ar_model = None\<rparr>"

definition coarse_source :: chatpdf_source where
  "coarse_source =
     \<lparr>cs_page = 12, cs_section = None, cs_exactText = ''Signed and dated written informed consent'',
      cs_relevance = high, cs_context = ''Informed consent'', cs_highlightURL = None,
      cs_bboxes = None, cs_name = None\<rparr>"

definition claude_reply :: claude_response where
  "claude_reply =
     \<lparr>cl_content = ''Signed and dated written informed consent is required.'',
      cl_citations = Some [\<lparr>cc_content = Some ''Signed and dated written informed consent'',
                             cc_source = Some \<lparr>chunk_index = Some 12\<rparr>\<rparr>],
      cl_model = None\<rparr>"

section \<open>Strings: helper lemmas\<close>

lemma startsWith_append: "startsWith s p \<Longrightarrow> startsWith (s @ t) p"
  by (induction s p rule: startsWith.induct) auto

lemma startsWith_self: "startsWith p p"
  by (induction p) auto

lemma js_includes_append1: "js_includes s p \<Longrightarrow> js_includes (s @ t) p"
proof (induction s)
  case Nil
  then show ?case by (cases t) auto
next
  case (Cons c cs)
  then show ?case using startsWith_append[of "c # cs" p t] by auto
qed

lemma js_includes_append2: "js_includes t p \<Longrightarrow> js_includes (s @ t) p"
  by (induction s) auto

lemma js_includes_self: "js_includes p p"
  by (cases p) (auto simp: startsWith_self)

lemma js_includes_middle: "js_includes (a @ p @ b) p"
  by (intro js_includes_append2 js_includes_append1 js_includes_self)

lemma toLowerCase_append: "toLowerCase (a @ b) = toLowerCase a @ toLowerCase b"
  by (simp add: toLowerCase_def)

lemma string_of_nat_503: "string_of_nat 503 = ''503''"
  by code_simp

lemma string_of_nat_400: "string_of_nat 400 = ''400''"
  by code_simp

lemma message_503_retryable:
  "js_includes (toLowerCase (''Primary backend error: '' @ string_of_nat 503 @ '' '' @ st)) ''503''"
proof -
  have eq: "''Primary backend error: '' @ string_of_nat 503 @ '' '' @ st
              = ''Primary backend error: 503'' @ ('' '' @ st)"
    by (simp add: string_of_nat_503)
  have "js_includes (toLowerCase ''Primary backend error: 503'') ''503''"
    by code_simp
  then have "js_includes (toLowerCase ''Primary backend error: 503'' @ toLowerCase ('' '' @ st)) ''503''"
    by (rule js_includes_append1)
  then show ?thesis
    by (simp only: eq toLowerCase_append)
qed

lemma message_400_keyword:
  assumes "k \<in> set retry_keywords"
  shows "js_includes (toLowerCase (''Primary backend error: 400 '' @ st)) k
           = js_includes (toLowerCase st) k"
  using assms
  apply (simp add: retry_keywords_def toLowerCase_def toLowerChar_def)
  apply (elim disjE)
        apply simp_all
  done

section \<open>Failure classification\<close>

lemma shouldUseFallback_refines_spec: "shouldUseFallback e = spec_isRetryable e"
  by (cases "err_message e = []")
     (auto simp: shouldUseFallback_def spec_isRetryable_def retry_keywords_def Let_def toLowerCase_def)

lemma primary_error_503:
  assumes "primary_query w (cs @ [PrimaryQuery m d u l]) = HttpNotOk 503 statusText body"
  shows "\<exists>err. fst (queryPrimaryBackend w m d u l t cs) = Inl err \<and> shouldUseFallback err"
proof -
  let ?err = "new_Error (''Primary backend error: '' @ string_of_nat 503 @ '' '' @ statusText)"
  have "fst (queryPrimaryBackend w m d u l t cs) = Inl ?err"
    using assms by (simp add: queryPrimaryBackend_def Let_def)
  moreover have "spec_isRetryable ?err"
    using message_503_retryable[of statusText]
    by (simp add: spec_isRetryable_def retry_keywords_def new_Error_def)
  ultimately show ?thesis
    by (auto simp: shouldUseFallback_refines_spec)
qed

lemma primary_error_400:
  assumes "primary_query w (cs @ [PrimaryQuery m d u l]) = HttpNotOk 400 statusText body"
  shows "\<exists>err. fst (queryPrimaryBackend w m d u l t cs) = Inl err \<and>
           shouldUseFallback err
             = (\<exists>k \<in> set retry_keywords. js_includes (toLowerCase statusText) k)"
proof -
  let ?err = "new_Error (''Primary backend error: '' @ string_of_nat 400 @ '' '' @ statusText)"
  have eq: "''Primary backend error: '' @ string_of_nat 400 @ '' '' @ statusText
              = ''Primary backend error: 400 '' @ statusText"
    by (simp add: string_of_nat_400)
  have "fst (queryPrimaryBackend w m d u l t cs) = Inl ?err"
    using assms by (simp add: queryPrimaryBackend_def Let_def)
  moreover have "spec_isRetryable ?err
                   = (\<exists>k \<in> set retry_keywords. js_includes (toLowerCase statusText) k)"
  proof -
    have "(\<exists>k \<in> set retry_keywords. js_includes (toLowerCase (err_message ?err)) k)
            = (\<exists>k \<in> set retry_keywords. js_includes (toLowerCase statusText) k)"
      using message_400_keyword[of _ statusText]
      by (simp only: new_Error_def js_error.simps eq) blast
    moreover have "\<not> is_TypeError ?err" "err_name ?err = ''Error''"
      by (simp_all add: new_Error_def)
    ultimately show ?thesis
      by (simp add: spec_isRetryable_def)
  qed
  ultimately show ?thesis
    by (auto simp: shouldUseFallback_refines_spec)
qed

text \<open>
  C1, as stated, fails in its last example. The error the primary client throws for a
  reply that is not \<^verbatim>\<open>ok\<close> carries the reply's status text in its message, and the
  classifier searches the whole message: an HTTP 400 reply with the status text
  \<^verbatim>\<open>Bad Request: connection closed\<close> is classified retryable.
\<close>

theorem http_400_retryable_counterexample:
  "fst (queryPrimaryBackend primary_bad_request_closed ''q'' ''doc1'' ''tok'' 5 120000 [])
     = Inl (new_Error ''Primary backend error: 400 Bad Request: connection closed'') \<and>
   shouldUseFallback (new_Error ''Primary backend error: 400 Bad Request: connection closed'')"
  by (simp add: queryPrimaryBackend_def primary_bad_request_closed_def string_of_nat_400
                shouldUseFallback_def new_Error_def toLowerCase_def toLowerChar_def)

text \<open>
  C1, amended. \<open>shouldUseFallback\<close> is true exactly when the error's name is
  \<^verbatim>\<open>AbortError\<close> or \<^verbatim>\<open>TimeoutError\<close>, or its lowercased message contains one of the
  keywords 500, 502, 503, 504, network, timeout, connection, or it is a \<^verbatim>\<open>TypeError\<close>
  whose message mentions \<^verbatim>\<open>fetch\<close>. In particular an \<^verbatim>\<open>AbortError\<close>, a message
  containing \<^verbatim>\<open>timeout\<close> and the error the primary client throws for an HTTP 503 reply
  are retryable. The error it throws for an HTTP 400 reply is retryable exactly when the
  reply's status text has one of the keywords: it yields false for a status text without
  them, such as \<^verbatim>\<open>Bad Request\<close>.
\<close>

theorem shouldUseFallback_classification:
  "shouldUseFallback e = spec_isRetryable e \<and>
   (err_name e = ''AbortError'' \<longrightarrow> shouldUseFallback e) \<and>
   (js_includes (toLowerCase (err_message e)) ''timeout'' \<longrightarrow> shouldUseFallback e) \<and>
   (primary_query w (cs @ [PrimaryQuery m d u l]) = HttpNotOk 503 statusText body \<longrightarrow>
      (\<exists>err. fst (queryPrimaryBackend w m d u l t cs) = Inl err \<and> shouldUseFallback err)) \<and>
   (primary_query w' (cs @ [PrimaryQuery m d u l]) = HttpNotOk 400 statusText' body' \<longrightarrow>
      (\<exists>err. fst (queryPrimaryBackend w' m d u l t cs) = Inl err \<and>
             shouldUseFallback err
               = (\<exists>k \<in> set retry_keywords. js_includes (toLowerCase statusText') k)))"
proof (intro conjI impI)
  show "shouldUseFallback e = spec_isRetryable e"
    by (rule shouldUseFallback_refines_spec)
next
  assume "err_name e = ''AbortError''"
  then show "shouldUseFallback e"
    by (simp add: shouldUseFallback_def)
next
  assume "js_includes (toLowerCase (err_message e)) ''timeout''"
  then show "shouldUseFallback e"
    by (simp add: shouldUseFallback_refines_spec spec_isRetryable_def retry_keywords_def)
next
  assume "primary_query w (cs @ [PrimaryQuery m d u l]) = HttpNotOk 503 statusText body"
  then show "\<exists>err. fst (queryPrimaryBackend w m d u l t cs) = Inl err \<and> shouldUseFallback err"
    by (rule primary_error_503)
next
  assume "primary_query w' (cs @ [PrimaryQuery m d u l]) = HttpNotOk 400 statusText' body'"
  then show "\<exists>err. fst (queryPrimaryBackend w' m d u l t cs) = Inl err \<and>
             shouldUseFallback err
               = (\<exists>k \<in> set retry_keywords. js_includes (toLowerCase statusText') k)"
    by (rule primary_error_400)
qed

theorem shouldUseFallback_classification_witness:
  "shouldUseFallback \<lparr>err_name = ''AbortError'', err_message = ''Request timeout'', is_TypeError = False\<rparr> \<and>
   shouldUseFallback \<lparr>err_name = ''Error'', err_message = ''Gateway TIMEOUT'', is_TypeError = False\<rparr> \<and>
   (\<exists>err. fst (queryPrimaryBackend
                 (silent_world\<lparr>primary_query := (\<lambda>cs. HttpNotOk 503 ''Service Unavailable'' (Inr \<lparr>ce_error = None, ce_message = None\<rparr>))\<rparr>)
                 ''q'' ''doc1'' ''tok'' 5 120000 []) = Inl err \<and> shouldUseFallback err) \<and>
   (\<exists>err. fst (queryPrimaryBackend
                 (silent_world\<lparr>primary_query := (\<lambda>cs. HttpNotOk 400 ''Bad Request'' (Inr \<lparr>ce_error = None, ce_message = None\<rparr>))\<rparr>)
                 ''q'' ''doc1'' ''tok'' 5 120000 []) = Inl err \<and> \<not> shouldUseFallback err)"
proof -
  have upper: "js_includes (toLowerCase (err_message
                  \<lparr>err_name = ''Error'', err_message = ''Gateway TIMEOUT'', is_TypeError = False\<rparr>)) ''timeout''"
    by (simp add: toLowerCase_def toLowerChar_def)
  have second: "shouldUseFallback \<lparr>err_name = ''Error'', err_message = ''Gateway TIMEOUT'', is_TypeError = False\<rparr>"
    using shouldUseFallback_classification
            [of "\<lparr>err_name = ''Error'', err_message = ''Gateway TIMEOUT'', is_TypeError = False\<rparr>"]
          upper
    by blast
  show ?thesis
    using shouldUseFallback_classification
          [of "\<lparr>err_name = ''AbortError'', err_message = ''Request timeout'', is_TypeError = False\<rparr>"
              "silent_world\<lparr>primary_query := (\<lambda>cs. HttpNotOk 503 ''Service Unavailable'' (Inr \<lparr>ce_error = None, ce_message = None\<rparr>))\<rparr>"
              "[]" "''q''" "''doc1''" "''tok''" 5 "''Service Unavailable''" "Inr \<lparr>ce_error = None, ce_message = None\<rparr>" 120000
              "silent_world\<lparr>primary_query := (\<lambda>cs. HttpNotOk 400 ''Bad Request'' (Inr \<lparr>ce_error = None, ce_message = None\<rparr>))\<rparr>"
              "''Bad Request''" "Inr \<lparr>ce_error = None, ce_message = None\<rparr>"]
          second
    by (simp add: spec_isRetryable_def retry_keywords_def toLowerCase_def toLowerChar_def)
qed

section \<open>The orchestrator\<close>

lemma queryPrimaryBackend_calls:
  "snd (queryPrimaryBackend w m d u l t cs) = cs @ [PrimaryQuery m d u l]"
  by (simp add: queryPrimaryBackend_def Let_def split: fetch_outcome.split sum.split)

lemma getChatPDFService_no_key:
  "\<not> truthy (VITE_CHATPDF_ACCESS_KEY ev) \<Longrightarrow> getChatPDFService ev st = (None, st)"
  by (simp add: getChatPDFService_def truthy_def split: option.splits)

lemma queryWithChatPDF_no_key:
  "\<not> truthy (VITE_CHATPDF_ACCESS_KEY ev) \<Longrightarrow>
     queryWithChatPDF ev w now message documentId dd st
       = (Inl (new_Error ''ChatPDF service is not available''), st)"
  by (simp add: queryWithChatPDF_def getChatPDFService_no_key)

lemma createBackendError_no_key:
  "\<not> truthy (VITE_CHATPDF_ACCESS_KEY ev) \<Longrightarrow>
     createBackendError ev e primary st
       = (\<lparr>be_error = err_message e, be_source = primary,
           be_canRetry = shouldUseFallback e, be_suggestFallback = False\<rparr>, st)"
  by (simp add: createBackendError_def getChatPDFService_no_key)

text \<open>
  C2. When the third-party provider is not the forced primary and the primary backend
  call succeeds, \<open>query\<close> resolves with a response tagged \<open>primary\<close> that carries the
  primary backend's text and sources; the only request issued is the primary query, so
  the third-party client receives no call, and its singleton is left as it was.
\<close>

theorem query_primary_success:
  assumes "\<not> shouldUseChatPDFAsPrimary ev"
    and "fst (queryPrimaryBackend w (qo_message options) (qo_documentId options) (qo_userId options)
                (effective_limit options) (effective_timeout options) (calls st)) = Inr response"
  shows "(\<exists>r. query ev w now options st
              = (Inr r, st\<lparr>calls := calls st @ [PrimaryQuery (qo_message options) (qo_documentId options)
                                                    (qo_userId options) (effective_limit options)]\<rparr>) \<and>
             br_source r = primary \<and> br_response r = pr_response response \<and>
             br_sources r = Some (pr_sources response) \<and> br_timestamp r = now) \<and>
         chatpdf_calls (calls (snd (query ev w now options st))) = chatpdf_calls (calls st) \<and>
         chatPDFService (snd (query ev w now options st)) = chatPDFService st"
proof -
  let ?p = "queryPrimaryBackend w (qo_message options) (qo_documentId options) (qo_userId options)
                (effective_limit options) (effective_timeout options) (calls st)"
  let ?cs = "calls st @ [PrimaryQuery (qo_message options) (qo_documentId options)
                                                    (qo_userId options) (effective_limit options)]"
  have p: "?p = (Inr response, ?cs)"
    using assms(2) queryPrimaryBackend_calls[of w "qo_message options" "qo_documentId options" "qo_userId options"
                "effective_limit options" "effective_timeout options" "calls st"]
    by (metis prod.collapse)
  have q: "query ev w now options st
             = (Inr \<lparr>br_response = pr_response response, br_sources = Some (pr_sources response),
                     br_source = primary, br_timestamp = now\<rparr>, st\<lparr>calls := ?cs\<rparr>)"
    using assms(1) by (simp add: query_def Let_def p)
  show ?thesis
    by (simp add: q chatpdf_calls_def)
qed

lemma error_both_messages:
  "js_includes (be_error (createFallbackError e1 e2)) (err_message e1) \<and>
   js_includes (be_error (createFallbackError e1 e2)) (err_message e2)"
proof -
  have "js_includes (''Both services failed. Primary: '' @ err_message e1 @ (''. Fallback: '' @ err_message e2)) (err_message e1)"
    by (rule js_includes_middle)
  moreover have "js_includes ((''Both services failed. Primary: '' @ err_message e1 @ ''. Fallback: '') @ err_message e2) (err_message e2)"
    by (rule js_includes_append2) (rule js_includes_self)
  ultimately show ?thesis
    by (simp add: createFallbackError_def Let_def)
qed

text \<open>
  C3. When the primary backend call fails with a retryable error, the third-party client
  is configured, and the fallback call fails too, \<open>query\<close> rejects with one combined
  error: its message contains the primary error's message and the fallback error's
  message, and it is marked \<open>canRetry = false\<close> and \<open>suggestFallback = false\<close>.
\<close>

theorem query_both_failed:
  assumes "\<not> shouldUseChatPDFAsPrimary ev"
    and "queryPrimaryBackend w (qo_message options) (qo_documentId options) (qo_userId options)
                (effective_limit options) (effective_timeout options) (calls st) = (Inl primaryError, cs)"
    and "shouldUseFallback primaryError"
    and "getChatPDFService ev (st\<lparr>calls := cs\<rparr>) = (Some svc, st1)"
    and "queryWithChatPDF ev w now (qo_message options) (qo_documentId options) (qo_documentData options) st1
           = (Inl fallbackError, st2)"
  shows "\<exists>err. query ev w now options st = (Inl (ThrownBackendError err), st2) \<and>
           be_error err = ''Both services failed. Primary: '' @ err_message primaryError
                            @ ''. Fallback: '' @ err_message fallbackError \<and>
           js_includes (be_error err) (err_message primaryError) \<and>
           js_includes (be_error err) (err_message fallbackError) \<and>
           \<not> be_canRetry err \<and> \<not> be_suggestFallback err"
proof -
  have "query ev w now options st
          = (Inl (ThrownBackendError (createFallbackError primaryError fallbackError)), st2)"
    using assms by (simp add: query_def Let_def)
  moreover have "be_error (createFallbackError primaryError fallbackError)
      = ''Both services failed. Primary: '' @ err_message primaryError
                            @ ''. Fallback: '' @ err_message fallbackError"
    "\<not> be_canRetry (createFallbackError primaryError fallbackError)"
    "\<not> be_suggestFallback (createFallbackError primaryError fallbackError)"
    by (simp_all add: createFallbackError_def Let_def)
  ultimately show ?thesis
    using error_both_messages[of primaryError fallbackError] by blast
qed

theorem query_primary_success_witness:
  "(\<exists>r. query fallback_env primary_up 1000 sample_options initial_state
            = (Inr r, \<lparr>chatPDFService = None,
                       calls = [PrimaryQuery ''inclusion criteria'' ''doc1'' ''tok'' 5]\<rparr>) \<and>
         br_source r = primary \<and> br_response r = ''Adults aged 18 to 75'' \<and>
         br_sources r = Some [eligibility_source] \<and> br_timestamp r = 1000) \<and>
   chatpdf_calls (calls (snd (query fallback_env primary_up 1000 sample_options initial_state))) = []"
proof -
  have h1: "\<not> shouldUseChatPDFAsPrimary fallback_env"
    by (simp add: shouldUseChatPDFAsPrimary_def fallback_env_def)
  have h2: "fst (queryPrimaryBackend primary_up (qo_message sample_options) (qo_documentId sample_options)
                   (qo_userId sample_options) (effective_limit sample_options)
                   (effective_timeout sample_options) (calls initial_state))
              = Inr \<lparr>pr_response = ''Adults aged 18 to 75'', pr_sources = [eligibility_source]\<rparr>"
    by (simp add: queryPrimaryBackend_def primary_up_def or_default_def)
  show ?thesis
    using query_primary_success[OF h1 h2, of 1000]
    by (simp add: sample_options_def initial_state_def effective_limit_def chatpdf_calls_def)
qed

theorem query_both_failed_witness:
  "\<exists>err. query fallback_env primary_unavailable 1000 sample_options initial_state
            = (Inl (ThrownBackendError err),
               \<lparr>chatPDFService = Some \<lparr>apiKey = ''sec_key'', sourceCache = Map.empty\<rparr>,
                calls = [PrimaryQuery ''inclusion criteria'' ''doc1'' ''tok'' 5,
                         AddUrl ''https://files.example/protocol.pdf'']\<rparr>) \<and>
          be_error err = ''Both services failed. Primary: Primary backend error: 503 Service Unavailable. Fallback: Failed to fetch'' \<and>
          js_includes (be_error err) ''Primary backend error: 503 Service Unavailable'' \<and>
          js_includes (be_error err) ''Failed to fetch'' \<and>
          \<not> be_canRetry err \<and> \<not> be_suggestFallback err"
proof -
  let ?e1 = "new_Error ''Primary backend error: 503 Service Unavailable''"
  let ?cs = "[PrimaryQuery ''inclusion criteria'' ''doc1'' ''tok'' 5]"
  let ?svc = "\<lparr>apiKey = ''sec_key'', sourceCache = Map.empty\<rparr>"
  let ?st1 = "\<lparr>chatPDFService = Some ?svc, calls = ?cs\<rparr>"
  let ?st2 = "\<lparr>chatPDFService = Some ?svc, calls = ?cs @ [AddUrl ''https://files.example/protocol.pdf'']\<rparr>"
  have h1: "\<not> shouldUseChatPDFAsPrimary fallback_env"
    by (simp add: shouldUseChatPDFAsPrimary_def fallback_env_def)
  have h2: "queryPrimaryBackend primary_unavailable (qo_message sample_options) (qo_documentId sample_options)
                   (qo_userId sample_options) (effective_limit sample_options)
                   (effective_timeout sample_options) (calls initial_state) = (Inl ?e1, ?cs)"
    by (simp add: queryPrimaryBackend_def primary_unavailable_def string_of_nat_503 sample_options_def
                  initial_state_def effective_limit_def)
  have h3: "shouldUseFallback ?e1"
    by (simp add: shouldUseFallback_def new_Error_def toLowerCase_def toLowerChar_def)
  have h4: "getChatPDFService fallback_env (initial_state\<lparr>calls := ?cs\<rparr>) = (Some ?svc, ?st1)"
    by (simp add: getChatPDFService_def fallback_env_def initial_state_def Let_def)
  have h5: "queryWithChatPDF fallback_env primary_unavailable 1000 (qo_message sample_options)
              (qo_documentId sample_options) (qo_documentData sample_options) ?st1
              = (Inl failed_to_fetch, ?st2)"
    by (simp add: queryWithChatPDF_def getChatPDFService_def fallback_env_def sample_options_def
                  Let_def make_documentInfo_def or_else_def or_default_def truthy_def getSourceId_def
                  uploadDocumentByUrl_def primary_unavailable_def silent_world_def)
  show ?thesis
    using query_both_failed[OF h1 h2 h3 h4 h5]
    by (simp add: new_Error_def failed_to_fetch_def)
qed

lemma query_no_key_forced:
  assumes "\<not> truthy (VITE_CHATPDF_ACCESS_KEY ev)" and "shouldUseChatPDFAsPrimary ev"
  shows "query ev w now options st = (Inl (ThrownError (new_Error ''ChatPDF service is not available'')), st)"
  using assms by (simp add: query_def Let_def queryWithChatPDF_no_key)

lemma query_no_key_primary:
  assumes "\<not> truthy (VITE_CHATPDF_ACCESS_KEY ev)" and "\<not> shouldUseChatPDFAsPrimary ev"
  shows "\<exists>r. query ev w now options st
           = (r, st\<lparr>calls := calls st @ [PrimaryQuery (qo_message options) (qo_documentId options)
                                                    (qo_userId options) (effective_limit options)]\<rparr>) \<and>
              (\<forall>b. r = Inr b \<longrightarrow> br_source b = primary) \<and>
              (\<forall>e. r \<noteq> Inl (ThrownError e)) \<and>
              (\<forall>err. r = Inl (ThrownBackendError err) \<longrightarrow> \<not> be_suggestFallback err)"
proof -
  let ?p = "queryPrimaryBackend w (qo_message options) (qo_documentId options) (qo_userId options)
                (effective_limit options) (effective_timeout options) (calls st)"
  let ?cs = "calls st @ [PrimaryQuery (qo_message options) (qo_documentId options)
                                                    (qo_userId options) (effective_limit options)]"
  have p: "?p = (fst ?p, ?cs)"
    using queryPrimaryBackend_calls[of w "qo_message options" "qo_documentId options" "qo_userId options"
                "effective_limit options" "effective_timeout options" "calls st"]
    by (metis prod.collapse)
  show ?thesis
  proof (cases "fst ?p")
    case (Inl e)
    with p have "?p = (Inl e, ?cs)" by simp
    then show ?thesis
      using assms
      by (simp add: query_def Let_def getChatPDFService_no_key createBackendError_no_key)
  next
    case (Inr response)
    with p have "?p = (Inr response, ?cs)" by simp
    then show ?thesis
      using assms by (simp add: query_def Let_def)
  qed
qed

text \<open>
  C9, as stated, fails in its last part. With the key absent and the provider flagged
  as forced primary, \<open>shouldUseChatPDFAsPrimary\<close> is still true (it reads the flag only),
  so \<open>query\<close> hands the query to the third-party path and returns what that path
  returns, the rejection \<^verbatim>\<open>ChatPDF service is not available\<close>; the primary backend,
  which would have answered, is not asked.
\<close>

theorem forced_primary_without_key_counterexample:
  "VITE_CHATPDF_ACCESS_KEY forced_no_key_env = None \<and>
   shouldUseChatPDFAsPrimary forced_no_key_env \<and>
   fst (queryPrimaryBackend primary_up ''inclusion criteria'' ''doc1'' ''tok'' 5 120000 [])
     = Inr \<lparr>pr_response = ''Adults aged 18 to 75'', pr_sources = [eligibility_source]\<rparr> \<and>
   queryWithChatPDF forced_no_key_env primary_up 1000 ''inclusion criteria'' ''doc1''
       (qo_documentData sample_options) initial_state
     = (Inl (new_Error ''ChatPDF service is not available''), initial_state) \<and>
   query forced_no_key_env primary_up 1000 sample_options initial_state
     = (Inl (ThrownError (new_Error ''ChatPDF service is not available'')), initial_state)"
  by (simp add: forced_no_key_env_def shouldUseChatPDFAsPrimary_def queryPrimaryBackend_def
                primary_up_def or_default_def queryWithChatPDF_def getChatPDFService_def
                query_def sample_options_def Let_def)

text \<open>
  C9, amended. When the third-party provider's API key is absent (or empty),
  \<open>getChatPDFService\<close> gives no client and \<open>isChatPDFEnabled\<close> is false; no query sends
  the provider a request or creates its client; a response can only come from the
  primary backend; and a structured error never suggests the fallback. When the
  configuration flags the provider as forced primary, \<open>query\<close> still takes the
  third-party branch, which rejects at once with \<^verbatim>\<open>ChatPDF service is not available\<close>:
  no request is issued, to the provider or to the primary backend.
\<close>

theorem chatpdf_disabled_without_key:
  assumes "\<not> truthy (VITE_CHATPDF_ACCESS_KEY ev)"
  shows "fst (getChatPDFService ev st) = None \<and>
         \<not> isChatPDFEnabled ev \<and>
         chatpdf_calls (calls (snd (query ev w now options st))) = chatpdf_calls (calls st) \<and>
         chatPDFService (snd (query ev w now options st)) = chatPDFService st \<and>
         (\<forall>b. fst (query ev w now options st) = Inr b \<longrightarrow> br_source b = primary) \<and>
         (\<forall>err. fst (query ev w now options st) = Inl (ThrownBackendError err)
                  \<longrightarrow> \<not> be_suggestFallback err) \<and>
         (shouldUseChatPDFAsPrimary ev \<longrightarrow>
            query ev w now options st
              = (Inl (ThrownError (new_Error ''ChatPDF service is not available'')), st))"
proof (cases "shouldUseChatPDFAsPrimary ev")
  case True
  have q: "query ev w now options st
             = (Inl (ThrownError (new_Error ''ChatPDF service is not available'')), st)"
    using assms True by (rule query_no_key_forced)
  show ?thesis
    using assms by (simp add: q getChatPDFService_no_key isChatPDFEnabled_def)
next
  case False
  from query_no_key_primary[OF assms False, of w now options st]
  obtain r where q: "query ev w now options st
           = (r, st\<lparr>calls := calls st @ [PrimaryQuery (qo_message options) (qo_documentId options)
                                                    (qo_userId options) (effective_limit options)]\<rparr>)"
    and r: "\<forall>b. r = Inr b \<longrightarrow> br_source b = primary"
           "\<forall>err. r = Inl (ThrownBackendError err) \<longrightarrow> \<not> be_suggestFallback err"
    by blast
  show ?thesis
    using assms False r
    by (simp add: q getChatPDFService_no_key isChatPDFEnabled_def chatpdf_calls_def)
qed

theorem chatpdf_disabled_without_key_witness:
  "fst (getChatPDFService forced_no_key_env initial_state) = None \<and>
   \<not> isChatPDFEnabled forced_no_key_env \<and>
   query forced_no_key_env primary_up 1000 sample_options initial_state
     = (Inl (ThrownError (new_Error ''ChatPDF service is not available'')), initial_state) \<and>
   chatpdf_calls (calls (snd (query forced_no_key_env primary_up 1000 sample_options initial_state))) = [] \<and>
   (\<exists>b. fst (query no_key_env primary_up 1000 sample_options initial_state) = Inr b \<and>
        br_source b = primary) \<and>
   (\<exists>err. fst (query no_key_env primary_unavailable 1000 sample_options initial_state)
            = Inl (ThrownBackendError err) \<and>
          be_error err = ''Primary backend error: 503 Service Unavailable'' \<and>
          be_canRetry err \<and> \<not> be_suggestFallback err) \<and>
   chatpdf_calls (calls (snd (query no_key_env primary_unavailable 1000 sample_options initial_state))) = []"
proof -
  have h: "\<not> truthy (VITE_CHATPDF_ACCESS_KEY forced_no_key_env)"
    by (simp add: forced_no_key_env_def truthy_def)
  have f: "shouldUseChatPDFAsPrimary forced_no_key_env"
    by (simp add: forced_no_key_env_def shouldUseChatPDFAsPrimary_def)
  have h': "\<not> truthy (VITE_CHATPDF_ACCESS_KEY no_key_env)"
    by (simp add: no_key_env_def truthy_def)
  have up: "fst (query no_key_env primary_up 1000 sample_options initial_state)
              = Inr \<lparr>br_response = ''Adults aged 18 to 75'', br_sources = Some [eligibility_source],
                      br_source = primary, br_timestamp = 1000\<rparr>"
    by (simp add: query_def Let_def no_key_env_def shouldUseChatPDFAsPrimary_def queryPrimaryBackend_def
                  primary_up_def or_default_def)
  have down: "fst (query no_key_env primary_unavailable 1000 sample_options initial_state)
              = Inl (ThrownBackendError
                      \<lparr>be_error = ''Primary backend error: 503 Service Unavailable'', be_source = primary,
                       be_canRetry = True, be_suggestFallback = False\<rparr>)"
    by (simp add: query_def Let_def no_key_env_def shouldUseChatPDFAsPrimary_def queryPrimaryBackend_def
                  primary_unavailable_def string_of_nat_503 getChatPDFService_def createBackendError_def
                  new_Error_def shouldUseFallback_def toLowerCase_def toLowerChar_def)
  show ?thesis
    using chatpdf_disabled_without_key[OF h, of initial_state primary_up 1000 sample_options] f
          chatpdf_disabled_without_key[OF h', of initial_state primary_up 1000 sample_options]
          chatpdf_disabled_without_key[OF h', of initial_state primary_unavailable 1000 sample_options]
          up down
    by (simp add: initial_state_def chatpdf_calls_def)
qed

section \<open>The source-id cache\<close>

lemma uploadDocumentByUrl_calls:
  "snd (uploadDocumentByUrl w url cs) = cs @ [AddUrl url]"
  by (simp add: uploadDocumentByUrl_def Let_def split: fetch_outcome.split sum.split)

lemma uploads_snoc_AddUrl: "uploads (cs @ [AddUrl url]) = uploads cs + 1"
  by (simp add: uploads_def)

lemma getSourceId_hit:
  "sourceCache svc (di_id doc) = Some sid \<Longrightarrow> getSourceId w doc svc cs = (Inr sid, svc, cs)"
  by (simp add: getSourceId_def)

lemma getSourceId_miss_ok:
  assumes "sourceCache svc (di_id doc) = None"
    and "getSourceId w doc svc cs = (Inr sid, svc1, cs1)"
  shows "\<exists>url. di_url doc = Some url \<and> url \<noteq> [] \<and>
               uploadDocumentByUrl w url cs = (Inr sid, cs1) \<and>
               cs1 = cs @ [AddUrl url] \<and>
               svc1 = svc\<lparr>sourceCache := (sourceCache svc)(di_id doc \<mapsto> sid)\<rparr>"
proof (cases "di_url doc")
  case None
  with assms show ?thesis by (simp add: getSourceId_def)
next
  case (Some url)
  show ?thesis
  proof (cases "url = []")
    case True
    with assms Some show ?thesis by (simp add: getSourceId_def)
  next
    case False
    obtain r cs' where u: "uploadDocumentByUrl w url cs = (r, cs')"
      by (cases "uploadDocumentByUrl w url cs") auto
    then have cs': "cs' = cs @ [AddUrl url]"
      using uploadDocumentByUrl_calls[of w url cs] by simp
    from assms Some False u show ?thesis
      by (cases r) (auto simp: getSourceId_def cs')
  qed
qed

text \<open>
  C4. For a document whose id has a cached source id, \<open>getSourceId\<close> returns the cached
  id, issues no request and changes nothing. So when a first call misses the cache and
  succeeds, it uploads once and caches the id; a second call for the same document id
  (whatever the network does by then) returns that id without a request: across the two
  calls exactly one upload occurs.
\<close>

theorem getSourceId_uploads_once:
  "(sourceCache svc (di_id doc) = Some sid \<longrightarrow> getSourceId w doc svc cs = (Inr sid, svc, cs)) \<and>
   (sourceCache svc (di_id doc) = None \<and> getSourceId w doc svc cs = (Inr sid, svc1, cs1) \<and>
    di_id doc' = di_id doc \<longrightarrow>
      sourceCache svc1 (di_id doc) = Some sid \<and>
      uploads cs1 = uploads cs + 1 \<and>
      getSourceId w' doc' svc1 cs1 = (Inr sid, svc1, cs1) \<and>
      uploads (snd (snd (getSourceId w' doc' svc1 cs1))) = uploads cs + 1)"
proof (intro conjI impI)
  assume "sourceCache svc (di_id doc) = Some sid"
  then show "getSourceId w doc svc cs = (Inr sid, svc, cs)"
    by (rule getSourceId_hit)
next
  assume a: "sourceCache svc (di_id doc) = None \<and> getSourceId w doc svc cs = (Inr sid, svc1, cs1) \<and>
    di_id doc' = di_id doc"
  then obtain url where cs1: "cs1 = cs @ [AddUrl url]"
    and svc1: "svc1 = svc\<lparr>sourceCache := (sourceCache svc)(di_id doc \<mapsto> sid)\<rparr>"
    using getSourceId_miss_ok[of svc doc w cs sid svc1 cs1] by blast
  from svc1 show cached: "sourceCache svc1 (di_id doc) = Some sid" by simp
  from cs1 show up: "uploads cs1 = uploads cs + 1" by (simp add: uploads_snoc_AddUrl)
  from cached a have "sourceCache svc1 (di_id doc') = Some sid" by simp
  then show second: "getSourceId w' doc' svc1 cs1 = (Inr sid, svc1, cs1)"
    by (rule getSourceId_hit)
  from second up show "uploads (snd (snd (getSourceId w' doc' svc1 cs1))) = uploads cs + 1" by simp
qed

theorem getSourceId_uploads_once_witness:
  "getSourceId upload_ok protocol_doc fresh_client []
     = (Inr ''src_abc'', fresh_client\<lparr>sourceCache := [''doc1'' \<mapsto> ''src_abc'']\<rparr>,
        [AddUrl ''https://files.example/protocol.pdf'']) \<and>
   getSourceId silent_world protocol_doc (fresh_client\<lparr>sourceCache := [''doc1'' \<mapsto> ''src_abc'']\<rparr>)
       [AddUrl ''https://files.example/protocol.pdf'']
     = (Inr ''src_abc'', fresh_client\<lparr>sourceCache := [''doc1'' \<mapsto> ''src_abc'']\<rparr>,
        [AddUrl ''https://files.example/protocol.pdf'']) \<and>
   uploads (snd (snd (getSourceId silent_world protocol_doc
                        (fresh_client\<lparr>sourceCache := [''doc1'' \<mapsto> ''src_abc'']\<rparr>)
                        [AddUrl ''https://files.example/protocol.pdf'']))) = 1"
proof -
  have first: "getSourceId upload_ok protocol_doc fresh_client []
     = (Inr ''src_abc'', fresh_client\<lparr>sourceCache := [''doc1'' \<mapsto> ''src_abc'']\<rparr>,
        [AddUrl ''https://files.example/protocol.pdf''])"
    by (simp add: getSourceId_def uploadDocumentByUrl_def upload_ok_def protocol_doc_def fresh_client_def)
  have miss: "sourceCache fresh_client (di_id protocol_doc) = None"
    by (simp add: fresh_client_def)
  show ?thesis
    using getSourceId_uploads_once[of fresh_client protocol_doc "''src_abc''" upload_ok "[]"
            "fresh_client\<lparr>sourceCache := [''doc1'' \<mapsto> ''src_abc'']\<rparr>"
            "[AddUrl ''https://files.example/protocol.pdf'']" protocol_doc silent_world]
          first miss
    by (simp add: uploads_def)
qed

text \<open>
  C5. An entry enters the cache only after a successful upload. Whenever \<open>getSourceId\<close>
  rejects, the client (and so the cache) is unchanged; a document without a URL makes it
  reject before any request; a failing upload is rethrown as it is; and if the cache
  changed, then the upload resolved with a source id and the one new entry maps the
  document id to it.
\<close>

theorem getSourceId_failure_keeps_cache:
  "(getSourceId w doc svc cs = (Inl e, svc', cs') \<longrightarrow> svc' = svc) \<and>
   (sourceCache svc (di_id doc) = None \<and> \<not> truthy (di_url doc) \<longrightarrow>
      getSourceId w doc svc cs
        = (Inl (new_Error ''Document URL is required for ChatPDF upload''), svc, cs)) \<and>
   (sourceCache svc (di_id doc) = None \<and> di_url doc = Some url \<and> url \<noteq> [] \<and>
    fst (uploadDocumentByUrl w url cs) = Inl e \<longrightarrow>
      getSourceId w doc svc cs = (Inl e, svc, cs @ [AddUrl url])) \<and>
   (getSourceId w doc svc cs = (r, svc', cs') \<and> sourceCache svc' \<noteq> sourceCache svc \<longrightarrow>
      (\<exists>sid url. r = Inr sid \<and> di_url doc = Some url \<and>
                  uploadDocumentByUrl w url cs = (Inr sid, cs') \<and>
                  sourceCache svc' = (sourceCache svc)(di_id doc \<mapsto> sid)))"
proof (intro conjI impI)
  assume "getSourceId w doc svc cs = (Inl e, svc', cs')"
  then show "svc' = svc"
    by (auto simp: getSourceId_def split: option.splits if_splits prod.splits sum.splits)
next
  assume "sourceCache svc (di_id doc) = None \<and> \<not> truthy (di_url doc)"
  then show "getSourceId w doc svc cs
        = (Inl (new_Error ''Document URL is required for ChatPDF upload''), svc, cs)"
    by (auto simp: getSourceId_def truthy_def split: option.splits)
next
  assume a: "sourceCache svc (di_id doc) = None \<and> di_url doc = Some url \<and> url \<noteq> [] \<and>
    fst (uploadDocumentByUrl w url cs) = Inl e"
  then have "uploadDocumentByUrl w url cs = (Inl e, cs @ [AddUrl url])"
    using uploadDocumentByUrl_calls[of w url cs] by (metis prod.collapse)
  with a show "getSourceId w doc svc cs = (Inl e, svc, cs @ [AddUrl url])"
    by (simp add: getSourceId_def)
next
  assume a: "getSourceId w doc svc cs = (r, svc', cs') \<and> sourceCache svc' \<noteq> sourceCache svc"
  then show "\<exists>sid url. r = Inr sid \<and> di_url doc = Some url \<and>
                  uploadDocumentByUrl w url cs = (Inr sid, cs') \<and>
                  sourceCache svc' = (sourceCache svc)(di_id doc \<mapsto> sid)"
    by (auto simp: getSourceId_def split: option.splits if_splits prod.splits sum.splits)
qed

theorem getSourceId_failure_keeps_cache_witness:
  "getSourceId silent_world no_url_doc fresh_client []
     = (Inl (new_Error ''Document URL is required for ChatPDF upload''), fresh_client, []) \<and>
   getSourceId silent_world protocol_doc fresh_client []
     = (Inl failed_to_fetch, fresh_client, [AddUrl ''https://files.example/protocol.pdf'']) \<and>
   (\<exists>sid url. uploadDocumentByUrl upload_ok url [] = (Inr sid, [AddUrl ''https://files.example/protocol.pdf'']) \<and>
        di_url protocol_doc = Some url \<and> 
        sourceCache (fst (snd (getSourceId upload_ok protocol_doc fresh_client []))) = [''doc1'' \<mapsto> sid])"
proof -
  have a: "sourceCache fresh_client (di_id no_url_doc) = None \<and> \<not> truthy (di_url no_url_doc)"
    by (simp add: fresh_client_def no_url_doc_def truthy_def)
  have b: "sourceCache fresh_client (di_id protocol_doc) = None \<and>
           di_url protocol_doc = Some ''https://files.example/protocol.pdf'' \<and>
           ''https://files.example/protocol.pdf'' \<noteq> [] \<and>
           fst (uploadDocumentByUrl silent_world ''https://files.example/protocol.pdf'' []) = Inl failed_to_fetch"
    by (simp add: fresh_client_def protocol_doc_def uploadDocumentByUrl_def silent_world_def)
  have c: "getSourceId upload_ok protocol_doc fresh_client []
     = (Inr ''src_abc'', fresh_client\<lparr>sourceCache := [''doc1'' \<mapsto> ''src_abc'']\<rparr>,
        [AddUrl ''https://files.example/protocol.pdf'']) \<and>
     sourceCache (fresh_client\<lparr>sourceCache := [''doc1'' \<mapsto> ''src_abc'']\<rparr>) \<noteq> sourceCache fresh_client"
    by (simp add: getSourceId_def uploadDocumentByUrl_def upload_ok_def protocol_doc_def fresh_client_def
                  fun_eq_iff)
  show ?thesis
    using getSourceId_failure_keeps_cache[of silent_world no_url_doc fresh_client "[]" failed_to_fetch fresh_client "[]"]
          getSourceId_failure_keeps_cache[of silent_world protocol_doc fresh_client "[]" failed_to_fetch fresh_client "[]"
             "''https://files.example/protocol.pdf''"]
          getSourceId_failure_keeps_cache[of upload_ok protocol_doc fresh_client "[]" failed_to_fetch 
             "fresh_client\<lparr>sourceCache := [''doc1'' \<mapsto> ''src_abc'']\<rparr>" "[AddUrl ''https://files.example/protocol.pdf'']" "[]"
             "Inr ''src_abc''"]
          a b c
    by (simp add: fresh_client_def)
qed

section \<open>The degrade path\<close>

lemma string_of_int_5: "string_of_int 5 = ''5''"
  by code_simp

lemma basic_page_reference_fields:
  "cs_page (basic_page_reference info ref) = pageNumber ref"
  "cs_section (basic_page_reference info ref) = Some (''Page '' @ string_of_int (pageNumber ref))"
  "cs_exactText (basic_page_reference info ref) = ''Content from page '' @ string_of_int (pageNumber ref)"
  "cs_relevance (basic_page_reference info ref) = medium"
  by (simp_all add: basic_page_reference_def)

lemma queryDocument_degrades:
  assumes "chat_message w (cs @ [ChatMessage sid q]) = HttpOk (Inr data)"
    and "extract_sources w (cs @ [ChatMessage sid q, ExtractSources q]) = Inl err"
  shows "queryDocument w sid q (Some \<lparr>extractSources = Some True, documentInfo = Some info\<rparr>) cs
           = (Inr \<lparr>cq_content = cj_content data,
                   cq_references = Some (references_or_empty (cj_references data)),
                   cq_sources = Some (map (basic_page_reference (Some info))
                                        (references_or_empty (cj_references data)))\<rparr>,
              cs @ [ChatMessage sid q, ExtractSources q])"
  using assms by (simp add: queryDocument_def Let_def)

lemma enhanced_basic_page_reference_fields:
  "rs_page (enhanced_source (basic_page_reference info ref)) = Some (pageNumber ref)"
  "rs_section (enhanced_source (basic_page_reference info ref))
     = Some (''Page '' @ string_of_int (pageNumber ref))"
  "rs_exactText (enhanced_source (basic_page_reference info ref))
     = Some (''Content from page '' @ string_of_int (pageNumber ref))"
  "rs_relevance (enhanced_source (basic_page_reference info ref)) = Some ''medium''"
  by (simp_all add: enhanced_source_def basic_page_reference_def or_default_def string_of_relevance_def)

lemma queryWithChatPDF_degrades:
  assumes "getChatPDFService ev st = (Some svc, st1)"
    and "truthy (di_url (make_documentInfo documentId dd))"
    and "getSourceId w (make_documentInfo documentId dd) svc (calls st1) = (Inr sid, svc', cs)"
    and "chat_message w (cs @ [ChatMessage sid q]) = HttpOk (Inr data)"
    and "extract_sources w (cs @ [ChatMessage sid q, ExtractSources q]) = Inl err"
  shows "queryWithChatPDF ev w now q documentId dd st
           = (Inr \<lparr>br_response = cj_content data,
                   br_sources = Some (map (\<lambda>ref. enhanced_source
                                                  (basic_page_reference (Some (make_documentInfo documentId dd)) ref))
                                        (references_or_empty (cj_references data))),
                   br_source = chatpdf,
                   br_timestamp = now\<rparr>,
              st1\<lparr>chatPDFService := Some svc', calls := cs @ [ChatMessage sid q, ExtractSources q]\<rparr>)"
proof -
  have q: "queryDocument w sid q
             (Some \<lparr>extractSources = Some True, documentInfo = Some (make_documentInfo documentId dd)\<rparr>) cs
           = (Inr \<lparr>cq_content = cj_content data,
                   cq_references = Some (references_or_empty (cj_references data)),
                   cq_sources = Some (map (basic_page_reference (Some (make_documentInfo documentId dd)))
                                        (references_or_empty (cj_references data)))\<rparr>,
              cs @ [ChatMessage sid q, ExtractSources q])"
    using assms(4,5) by (rule queryDocument_degrades)
  show ?thesis
    using assms(1,2,3)
    by (simp add: queryWithChatPDF_def Let_def q transform_sources_def comp_def)
qed

text \<open>
  C6. A third-party response without enhanced sources and with the single reference
  \<^verbatim>\<open>{pageNumber: 5}\<close> is normalized to exactly one citation, with page 5 and section
  \<^verbatim>\<open>Page 5\<close>. And when the chat request succeeds but the citation extraction fails,
  \<open>queryDocument\<close> still resolves: it returns the provider's text with one coarse
  citation per page reference, in order, with section \<^verbatim>\<open>Page N\<close>, exact text
  \<^verbatim>\<open>Content from page N\<close> and relevance medium. The orchestrator's third-party path
  then resolves too, and hands these citations on with the same page, section, exact
  text and relevance.
\<close>

theorem coarse_citations_on_assist_failure:
  "(pageNumber ref = 5 \<longrightarrow>
      map adaptBackendSource
          (transform_sources info \<lparr>cq_content = c, cq_references = Some [ref], cq_sources = None\<rparr>)
        = [adaptBackendSource (basic_reference info ref)] \<and>
      us_page (adaptBackendSource (basic_reference info ref)) = 5 \<and>
      us_section (adaptBackendSource (basic_reference info ref)) = ''Page 5'') \<and>
   (chat_message w (cs @ [ChatMessage sid q]) = HttpOk (Inr data) \<and>
    extract_sources w (cs @ [ChatMessage sid q, ExtractSources q]) = Inl err \<longrightarrow>
      (\<exists>resp srcs.
          queryDocument w sid q (Some \<lparr>extractSources = Some True, documentInfo = Some info\<rparr>) cs
            = (Inr resp, cs @ [ChatMessage sid q, ExtractSources q]) \<and>
          cq_content resp = cj_content data \<and>
          cq_sources resp = Some srcs \<and>
          length srcs = length (references_or_empty (cj_references data)) \<and>
          map cs_page srcs = map pageNumber (references_or_empty (cj_references data)) \<and>
          map cs_section srcs
            = map (\<lambda>r. Some (''Page '' @ string_of_int (pageNumber r)))
                  (references_or_empty (cj_references data)) \<and>
          map cs_exactText srcs
            = map (\<lambda>r. ''Content from page '' @ string_of_int (pageNumber r))
                  (references_or_empty (cj_references data)) \<and>
          map cs_relevance srcs = map (\<lambda>r. medium) (references_or_empty (cj_references data)))) \<and>
   (getChatPDFService ev st = (Some svc, st1) \<and>
    truthy (di_url (make_documentInfo documentId dd)) \<and>
    getSourceId w' (make_documentInfo documentId dd) svc (calls st1) = (Inr sid', svc', cs') \<and>
    chat_message w' (cs' @ [ChatMessage sid' q']) = HttpOk (Inr data') \<and>
    extract_sources w' (cs' @ [ChatMessage sid' q', ExtractSources q']) = Inl err' \<longrightarrow>
      (\<exists>r srcs.
          queryWithChatPDF ev w' now q' documentId dd st
            = (Inr r, st1\<lparr>chatPDFService := Some svc',
                                calls := cs' @ [ChatMessage sid' q', ExtractSources q']\<rparr>) \<and>
          br_response r = cj_content data' \<and>
          br_source r = chatpdf \<and>
          br_sources r = Some srcs \<and>
          length srcs = length (references_or_empty (cj_references data')) \<and>
          map rs_page srcs = map (\<lambda>r. Some (pageNumber r)) (references_or_empty (cj_references data')) \<and>
          map rs_section srcs
            = map (\<lambda>r. Some (''Page '' @ string_of_int (pageNumber r)))
                  (references_or_empty (cj_references data')) \<and>
          map rs_exactText srcs
            = map (\<lambda>r. Some (''Content from page '' @ string_of_int (pageNumber r)))
                  (references_or_empty (cj_references data')) \<and>
          map rs_relevance srcs
            = map (\<lambda>r. Some ''medium'') (references_or_empty (cj_references data'))))"
proof (intro conjI impI)
  assume p: "pageNumber ref = 5"
  show "map adaptBackendSource
          (transform_sources info \<lparr>cq_content = c, cq_references = Some [ref], cq_sources = None\<rparr>)
        = [adaptBackendSource (basic_reference info ref)]"
    by (simp add: transform_sources_def)
  show "us_page (adaptBackendSource (basic_reference info ref)) = 5"
    using p by (simp add: adaptBackendSource_def basic_reference_def Let_def page_or_zero_def)
  show "us_section (adaptBackendSource (basic_reference info ref)) = ''Page 5''"
    using p by (simp add: adaptBackendSource_def basic_reference_def Let_def or_default_def string_of_int_5)
next
  assume a: "chat_message w (cs @ [ChatMessage sid q]) = HttpOk (Inr data) \<and>
    extract_sources w (cs @ [ChatMessage sid q, ExtractSources q]) = Inl err"
  let ?refs = "references_or_empty (cj_references data)"
  let ?srcs = "map (basic_page_reference (Some info)) ?refs"
  let ?resp = "\<lparr>cq_content = cj_content data, cq_references = Some ?refs, cq_sources = Some ?srcs\<rparr>"
  have q: "queryDocument w sid q (Some \<lparr>extractSources = Some True, documentInfo = Some info\<rparr>) cs
             = (Inr ?resp, cs @ [ChatMessage sid q, ExtractSources q])"
    using a queryDocument_degrades by blast
  have f: "map cs_page ?srcs = map pageNumber ?refs"
    "map cs_section ?srcs = map (\<lambda>r. Some (''Page '' @ string_of_int (pageNumber r))) ?refs"
    "map cs_exactText ?srcs = map (\<lambda>r. ''Content from page '' @ string_of_int (pageNumber r)) ?refs"
    "map cs_relevance ?srcs = map (\<lambda>r. medium) ?refs"
    by (simp_all add: basic_page_reference_fields comp_def)
  show "\<exists>resp srcs.
          queryDocument w sid q (Some \<lparr>extractSources = Some True, documentInfo = Some info\<rparr>) cs
            = (Inr resp, cs @ [ChatMessage sid q, ExtractSources q]) \<and>
          cq_content resp = cj_content data \<and>
          cq_sources resp = Some srcs \<and>
          length srcs = length ?refs \<and>
          map cs_page srcs = map pageNumber ?refs \<and>
          map cs_section srcs = map (\<lambda>r. Some (''Page '' @ string_of_int (pageNumber r))) ?refs \<and>
          map cs_exactText srcs = map (\<lambda>r. ''Content from page '' @ string_of_int (pageNumber r)) ?refs \<and>
          map cs_relevance srcs = map (\<lambda>r. medium) ?refs"
    apply (rule exI[of _ ?resp])
    apply (rule exI[of _ ?srcs])
    using q f apply simp
    done
next
  assume a: "getChatPDFService ev st = (Some svc, st1) \<and>
    truthy (di_url (make_documentInfo documentId dd)) \<and>
    getSourceId w' (make_documentInfo documentId dd) svc (calls st1) = (Inr sid', svc', cs') \<and>
    chat_message w' (cs' @ [ChatMessage sid' q']) = HttpOk (Inr data') \<and>
    extract_sources w' (cs' @ [ChatMessage sid' q', ExtractSources q']) = Inl err'"
  let ?refs = "references_or_empty (cj_references data')"
  let ?srcs = "map (\<lambda>ref. enhanced_source (basic_page_reference (Some (make_documentInfo documentId dd)) ref)) ?refs"
  let ?r = "\<lparr>br_response = cj_content data', br_sources = Some ?srcs, br_source = chatpdf, br_timestamp = now\<rparr>"
  have q: "queryWithChatPDF ev w' now q' documentId dd st
             = (Inr ?r, st1\<lparr>chatPDFService := Some svc',
                                 calls := cs' @ [ChatMessage sid' q', ExtractSources q']\<rparr>)"
    using a queryWithChatPDF_degrades[of ev st svc st1 documentId dd w' sid' svc' cs' q' data' err' now]
    by blast
  have f: "map rs_page ?srcs = map (\<lambda>r. Some (pageNumber r)) ?refs"
    "map rs_section ?srcs = map (\<lambda>r. Some (''Page '' @ string_of_int (pageNumber r))) ?refs"
    "map rs_exactText ?srcs = map (\<lambda>r. Some (''Content from page '' @ string_of_int (pageNumber r))) ?refs"
    "map rs_relevance ?srcs = map (\<lambda>r. Some ''medium'') ?refs"
    by (simp_all add: enhanced_basic_page_reference_fields comp_def)
  show "\<exists>r srcs.
          queryWithChatPDF ev w' now q' documentId dd st
            = (Inr r, st1\<lparr>chatPDFService := Some svc',
                                calls := cs' @ [ChatMessage sid' q', ExtractSources q']\<rparr>) \<and>
          br_response r = cj_content data' \<and>
          br_source r = chatpdf \<and>
          br_sources r = Some srcs \<and>
          length srcs = length ?refs \<and>
          map rs_page srcs = map (\<lambda>r. Some (pageNumber r)) ?refs \<and>
          map rs_section srcs = map (\<lambda>r. Some (''Page '' @ string_of_int (pageNumber r))) ?refs \<and>
          map rs_exactText srcs
            = map (\<lambda>r. Some (''Content from page '' @ string_of_int (pageNumber r))) ?refs \<and>
          map rs_relevance srcs = map (\<lambda>r. Some ''medium'') ?refs"
    apply (rule exI[of _ ?r])
    apply (rule exI[of _ ?srcs])
    using q f apply simp
    done
qed

theorem coarse_citations_on_assist_failure_witness:
  "map us_page (map adaptBackendSource
          (transform_sources protocol_doc \<lparr>cq_content = ''See page 5.'', cq_references = Some [page5], cq_sources = None\<rparr>)) = [5] \<and>
   map us_section (map adaptBackendSource
          (transform_sources protocol_doc \<lparr>cq_content = ''See page 5.'', cq_references = Some [page5], cq_sources = None\<rparr>)) = [''Page 5''] \<and>
   (\<exists>resp srcs.
          queryDocument assist_down ''src_abc'' ''inclusion criteria''
               (Some \<lparr>extractSources = Some True, documentInfo = Some protocol_doc\<rparr>) []
            = (Inr resp, [ChatMessage ''src_abc'' ''inclusion criteria'', ExtractSources ''inclusion criteria'']) \<and>
          cq_content resp = ''See page 5.'' \<and>
          cq_sources resp = Some srcs \<and>
          length srcs = 1 \<and>
          map cs_page srcs = [5] \<and>
          map cs_section srcs = [Some ''Page 5''] \<and>
          map cs_exactText srcs = [''Content from page 5''] \<and>
          map cs_relevance srcs = [medium]) \<and>
   (\<exists>r srcs.
          queryWithChatPDF fallback_env assist_down_after_upload 1000 ''inclusion criteria'' ''doc1''
               (qo_documentData sample_options) initial_state
            = (Inr r,
               \<lparr>chatPDFService = Some \<lparr>apiKey = ''sec_key'', sourceCache = [''doc1'' \<mapsto> ''src_abc'']\<rparr>,
                calls = [AddUrl ''https://files.example/protocol.pdf'',
                         ChatMessage ''src_abc'' ''inclusion criteria'',
                         ExtractSources ''inclusion criteria'']\<rparr>) \<and>
          br_response r = ''See page 5.'' \<and>
          br_source r = chatpdf \<and>
          br_sources r = Some srcs \<and>
          length srcs = 1 \<and>
          map rs_page srcs = [Some 5] \<and>
          map rs_section srcs = [Some ''Page 5''] \<and>
          map rs_exactText srcs = [Some ''Content from page 5''] \<and>
          map rs_relevance srcs = [Some ''medium''])"
proof -
  let ?svc = "\<lparr>apiKey = ''sec_key'', sourceCache = Map.empty\<rparr>"
  let ?svc' = "\<lparr>apiKey = ''sec_key'', sourceCache = [''doc1'' \<mapsto> ''src_abc'']\<rparr>"
  let ?st1 = "\<lparr>chatPDFService = Some ?svc, calls = []\<rparr>"
  let ?cs = "[AddUrl ''https://files.example/protocol.pdf'']"
  let ?data = "\<lparr>cj_content = ''See page 5.'', cj_references = Some [page5]\<rparr>"
  have h1: "pageNumber page5 = 5"
    by (simp add: page5_def)
  have h2: "chat_message assist_down ([] @ [ChatMessage ''src_abc'' ''inclusion criteria''])
              = HttpOk (Inr \<lparr>cj_content = ''See page 5.'', cj_references = Some [page5]\<rparr>) \<and>
            extract_sources assist_down ([] @ [ChatMessage ''src_abc'' ''inclusion criteria'', ExtractSources ''inclusion criteria''])
              = Inl failed_to_fetch"
    by (simp add: assist_down_def silent_world_def)
  have h3: "getChatPDFService fallback_env initial_state = (Some ?svc, ?st1) \<and>
            truthy (di_url (make_documentInfo ''doc1'' (qo_documentData sample_options))) \<and>
            getSourceId assist_down_after_upload (make_documentInfo ''doc1'' (qo_documentData sample_options))
                ?svc (calls ?st1) = (Inr ''src_abc'', ?svc', ?cs) \<and>
            chat_message assist_down_after_upload (?cs @ [ChatMessage ''src_abc'' ''inclusion criteria''])
              = HttpOk (Inr ?data) \<and>
            extract_sources assist_down_after_upload
                (?cs @ [ChatMessage ''src_abc'' ''inclusion criteria'', ExtractSources ''inclusion criteria''])
              = Inl failed_to_fetch"
    by (simp add: getChatPDFService_def fallback_env_def initial_state_def Let_def sample_options_def
                  make_documentInfo_def or_else_def or_default_def truthy_def getSourceId_def
                  uploadDocumentByUrl_def assist_down_after_upload_def silent_world_def)
  have first: "map us_page (map adaptBackendSource
          (transform_sources protocol_doc \<lparr>cq_content = ''See page 5.'', cq_references = Some [page5], cq_sources = None\<rparr>)) = [5] \<and>
     map us_section (map adaptBackendSource
          (transform_sources protocol_doc \<lparr>cq_content = ''See page 5.'', cq_references = Some [page5], cq_sources = None\<rparr>)) = [''Page 5''] \<and>
     (\<exists>resp srcs.
          queryDocument assist_down ''src_abc'' ''inclusion criteria''
               (Some \<lparr>extractSources = Some True, documentInfo = Some protocol_doc\<rparr>) []
            = (Inr resp, [ChatMessage ''src_abc'' ''inclusion criteria'', ExtractSources ''inclusion criteria'']) \<and>
          cq_content resp = ''See page 5.'' \<and>
          cq_sources resp = Some srcs \<and>
          length srcs = 1 \<and>
          map cs_page srcs = [5] \<and>
          map cs_section srcs = [Some ''Page 5''] \<and>
          map cs_exactText srcs = [''Content from page 5''] \<and>
          map cs_relevance srcs = [medium])"
    using coarse_citations_on_assist_failure
            [of page5 protocol_doc "''See page 5.''" assist_down "[]" "''src_abc''" "''inclusion criteria''"
                "\<lparr>cj_content = ''See page 5.'', cj_references = Some [page5]\<rparr>" failed_to_fetch]
          h1 h2
    by (simp add: references_or_empty_def string_of_int_5 h1)
  have second: "\<exists>r srcs.
          queryWithChatPDF fallback_env assist_down_after_upload 1000 ''inclusion criteria'' ''doc1''
               (qo_documentData sample_options) initial_state
            = (Inr r,
               \<lparr>chatPDFService = Some ?svc',
                calls = [AddUrl ''https://files.example/protocol.pdf'',
                         ChatMessage ''src_abc'' ''inclusion criteria'',
                         ExtractSources ''inclusion criteria'']\<rparr>) \<and>
          br_response r = ''See page 5.'' \<and>
          br_source r = chatpdf \<and>
          br_sources r = Some srcs \<and>
          length srcs = 1 \<and>
          map rs_page srcs = [Some 5] \<and>
          map rs_section srcs = [Some ''Page 5''] \<and>
          map rs_exactText srcs = [Some ''Content from page 5''] \<and>
          map rs_relevance srcs = [Some ''medium'']"
    using coarse_citations_on_assist_failure
            [where ev = fallback_env and st = initial_state and svc = "?svc" and ?st1.0 = "?st1"
               and documentId = "''doc1''" and dd = "qo_documentData sample_options"
               and w' = assist_down_after_upload and sid' = "''src_abc''" and svc' = "?svc'"
               and cs' = "?cs" and q' = "''inclusion criteria''" and data' = "?data"
               and err' = failed_to_fetch and now = 1000]
          h3
    by (simp add: references_or_empty_def string_of_int_5 h1)
  from first second show ?thesis
    by blast
qed

section \<open>The response adapter\<close>

lemma or_default_absent: "\<not> truthy v \<Longrightarrow> or_default v d = d"
  by (auto simp: truthy_def or_default_def split: option.splits)

lemma or_default_nonempty: "d \<noteq> [] \<Longrightarrow> or_default v d \<noteq> []"
  by (auto simp: or_default_def split: option.splits)

lemma nonempty_bboxes_cases:
  "nonempty_bboxes b = (case b of Some (x # xs) \<Rightarrow> Some (x # xs) | _ \<Rightarrow> None)"
  by (auto simp: nonempty_bboxes_def split: option.splits list.splits)

lemma adaptBackendResponse_sources:
  "ur_sources (adaptBackendResponse now r) = map adaptBackendSource (sources_or_empty (ar_sources r))"
  by (simp add: adaptBackendResponse_def sources_or_empty_def)

lemma adaptChatPDFResponse_sources:
  "ur_sources (adaptChatPDFResponse now r d) = map (adaptChatPDFSource d) (sources_or_empty (ar_sources r))"
  by (simp add: adaptChatPDFResponse_def sources_or_empty_def)

text \<open>
  C7, as stated, fails for \<open>adaptBackendResponse\<close>: it is given no document URL, and a
  source without \<^verbatim>\<open>highlightURL\<close> gets the empty string, not
  \<^verbatim>\<open>{documentUrl}#page={page}\<close>.
\<close>

theorem highlightURL_default_counterexample:
  "map us_highlightURL (ur_sources (adaptBackendResponse 1000 (response_with [page_only_source]))) = [[]] \<and>
   map us_highlightURL (ur_sources (adaptBackendResponse 1000 (response_with [page_only_source])))
     \<noteq> [''https://files.example/protocol.pdf#page=3'']"
  by (simp add: adaptBackendResponse_def sources_or_empty_def response_with_def adaptBackendSource_def
                page_only_source_def or_default_def)

text \<open>
  C7, amended. For every raw source record each adapter fills every absent (or empty)
  optional field with its default: the section becomes \<^verbatim>\<open>Document Section\<close>; the
  relevance becomes \<^verbatim>\<open>medium\<close> in \<open>adaptBackendResponse\<close> and \<^verbatim>\<open>high\<close> in
  \<open>adaptChatPDFResponse\<close>; the context becomes \<^verbatim>\<open>Context from backend analysis\<close>,
  respectively \<^verbatim>\<open>Context from ChatPDF analysis\<close>; the highlight URL becomes
  \<^verbatim>\<open>{documentUrl}#page={page}\<close> in \<open>adaptChatPDFResponse\<close> and the empty string in
  \<open>adaptBackendResponse\<close>. \<open>adaptBackendResponse\<close> passes the bounding boxes through
  exactly when the raw array is non-empty and omits the field otherwise (never an empty
  array); \<open>adaptChatPDFResponse\<close> always omits it.
\<close>

theorem adapter_defaults:
  "ur_sources (adaptBackendResponse now r) = map adaptBackendSource (sources_or_empty (ar_sources r)) \<and>
   ur_sources (adaptChatPDFResponse now r d) = map (adaptChatPDFSource d) (sources_or_empty (ar_sources r)) \<and>
   (\<not> truthy (rs_section src) \<longrightarrow>
      us_section (adaptBackendSource src) = ''Document Section'' \<and>
      us_section (adaptChatPDFSource d src) = ''Document Section'') \<and>
   (\<not> truthy (rs_relevance src) \<longrightarrow>
      us_relevance (adaptBackendSource src) = ''medium'' \<and>
      us_relevance (adaptChatPDFSource d src) = ''high'') \<and>
   (\<not> truthy (rs_context src) \<longrightarrow>
      us_context (adaptBackendSource src) = ''Context from backend analysis'' \<and>
      us_context (adaptChatPDFSource d src) = ''Context from ChatPDF analysis'') \<and>
   (\<not> truthy (rs_highlightURL src) \<longrightarrow>
      us_highlightURL (adaptBackendSource src) = [] \<and>
      us_highlightURL (adaptChatPDFSource d src) = d @ ''#page='' @ page_text (rs_page src)) \<and>
   (rs_page src = None \<longrightarrow>
      us_page (adaptBackendSource src) = 0 \<and> us_page (adaptChatPDFSource d src) = 0) \<and>
   (\<not> truthy (rs_exactText src) \<and> \<not> truthy (rs_content src) \<longrightarrow>
      us_exactText (adaptBackendSource src) = [] \<and> us_exactText (adaptChatPDFSource d src) = []) \<and>
   (rs_name src = None \<longrightarrow> us_name (adaptBackendSource src) = Some ''Unknown'') \<and>
   us_bboxes (adaptBackendSource src)
     = (case rs_bboxes src of Some (b # bs) \<Rightarrow> Some (b # bs) | _ \<Rightarrow> None) \<and>
   us_bboxes (adaptBackendSource src) \<noteq> Some [] \<and>
   us_bboxes (adaptChatPDFSource d src) = None"
proof (intro conjI impI)
  show "ur_sources (adaptBackendResponse now r) = map adaptBackendSource (sources_or_empty (ar_sources r))"
    by (rule adaptBackendResponse_sources)
  show "ur_sources (adaptChatPDFResponse now r d) = map (adaptChatPDFSource d) (sources_or_empty (ar_sources r))"
    by (rule adaptChatPDFResponse_sources)
  show "us_bboxes (adaptBackendSource src)
     = (case rs_bboxes src of Some (b # bs) \<Rightarrow> Some (b # bs) | _ \<Rightarrow> None)"
    by (simp add: adaptBackendSource_def nonempty_bboxes_cases)
  show "us_bboxes (adaptBackendSource src) \<noteq> Some []"
    by (simp add: adaptBackendSource_def nonempty_bboxes_def split: option.splits)
  show "us_bboxes (adaptChatPDFSource d src) = None"
    by (simp add: adaptChatPDFSource_def)
qed (simp_all add: adaptBackendSource_def adaptChatPDFSource_def or_default_absent page_or_zero_def)

theorem adapter_defaults_witness:
  "map us_section (ur_sources (adaptBackendResponse 1000 (response_with [page_only_source]))) = [''Document Section''] \<and>
   map us_relevance (ur_sources (adaptBackendResponse 1000 (response_with [page_only_source]))) = [''medium''] \<and>
   map us_context (ur_sources (adaptBackendResponse 1000 (response_with [page_only_source]))) = [''Context from backend analysis''] \<and>
   map us_highlightURL (ur_sources (adaptBackendResponse 1000 (response_with [page_only_source]))) = [[]] \<and>
   map us_bboxes (ur_sources (adaptBackendResponse 1000 (response_with [page_only_source]))) = [None] \<and>
   map us_section (ur_sources (adaptChatPDFResponse 1000 (response_with [page_only_source]) ''https://files.example/protocol.pdf'')) = [''Document Section''] \<and>
   map us_relevance (ur_sources (adaptChatPDFResponse 1000 (response_with [page_only_source]) ''https://files.example/protocol.pdf'')) = [''high''] \<and>
   map us_context (ur_sources (adaptChatPDFResponse 1000 (response_with [page_only_source]) ''https://files.example/protocol.pdf'')) = [''Context from ChatPDF analysis''] \<and>
   map us_highlightURL (ur_sources (adaptChatPDFResponse 1000 (response_with [page_only_source]) ''https://files.example/protocol.pdf''))
     = [''https://files.example/protocol.pdf#page=3''] \<and>
   map us_bboxes (ur_sources (adaptChatPDFResponse 1000 (response_with [page_only_source]) ''https://files.example/protocol.pdf'')) = [None]"
proof -
  have absent: "\<not> truthy (rs_section page_only_source)" "\<not> truthy (rs_relevance page_only_source)"
    "\<not> truthy (rs_context page_only_source)" "\<not> truthy (rs_highlightURL page_only_source)"
    "rs_bboxes page_only_source = Some []" "rs_page page_only_source = Some 3"
    by (simp_all add: page_only_source_def truthy_def)
  have three: "string_of_int 3 = ''3''"
    by code_simp
  show ?thesis
    using adapter_defaults[of 1000 "response_with [page_only_source]" "''https://files.example/protocol.pdf''"
                              page_only_source]
          absent
    by (simp add: sources_or_empty_def response_with_def page_text_def three)
qed

lemma page_or_zero_nonneg: "(\<forall>p. v = Some p \<longrightarrow> 0 \<le> p) \<Longrightarrow> 0 \<le> page_or_zero v"
  by (auto simp: page_or_zero_def split: option.splits)

lemma adaptBackendSource_section_nonempty: "us_section (adaptBackendSource src) \<noteq> []"
  by (simp add: adaptBackendSource_def or_default_nonempty)

lemma enhanced_source_section:
  "\<exists>label. rs_section (enhanced_source source) = Some label \<and> label \<noteq> [] \<and>
           (\<not> truthy (cs_section source) \<longrightarrow>
              label = ''Page '' @ string_of_int (cs_page source))"
  by (simp add: enhanced_source_def or_default_nonempty or_default_absent)

text \<open>
  C8, as stated, fails: \<open>adaptBackendResponse\<close> passes a negative raw page through, and
  a source without text gets the empty exact text beside the raw section label.
\<close>

theorem negative_page_counterexample:
  "map us_page (ur_sources (adaptBackendResponse 1000 (response_with [negative_page_source]))) = [- 1] \<and>
   map us_exactText (ur_sources (adaptBackendResponse 1000 (response_with [negative_page_source]))) = [[]] \<and>
   map us_section (ur_sources (adaptBackendResponse 1000 (response_with [negative_page_source]))) = [''Eligibility'']"
  by (simp add: adaptBackendResponse_def sources_or_empty_def response_with_def adaptBackendSource_def
                negative_page_source_def or_default_def page_or_zero_def)

text \<open>
  C8, amended. For every raw backend response, the page of each normalized citation is
  the raw page, or 0 when the raw page is absent; so every citation has a non-negative
  page whenever no raw page is negative. Every citation has a non-empty section label:
  the raw one, or the placeholder \<^verbatim>\<open>Document Section\<close> when the raw one is absent or
  empty; and the third-party transform gives every source a non-empty label, synthesizing
  \<^verbatim>\<open>Page {n}\<close> when the provider gives none. The exact text falls back to the content,
  then to the empty string.
\<close>

theorem citations_page_and_section:
  "map us_page (ur_sources (adaptBackendResponse now r))
     = map (\<lambda>s. page_or_zero (rs_page s)) (sources_or_empty (ar_sources r)) \<and>
   ((\<forall>s \<in> set (sources_or_empty (ar_sources r)). \<forall>p. rs_page s = Some p \<longrightarrow> 0 \<le> p) \<longrightarrow>
      (\<forall>c \<in> set (ur_sources (adaptBackendResponse now r)). 0 \<le> us_page c)) \<and>
   (\<forall>c \<in> set (ur_sources (adaptBackendResponse now r)). us_section c \<noteq> []) \<and>
   (\<forall>s \<in> set (sources_or_empty (ar_sources r)).
       \<not> truthy (rs_section s) \<longrightarrow> us_section (adaptBackendSource s) = ''Document Section'') \<and>
   (\<forall>s \<in> set (sources_or_empty (ar_sources r)).
       \<forall>label. rs_section s = Some label \<and> label \<noteq> [] \<longrightarrow> us_section (adaptBackendSource s) = label) \<and>
   (\<forall>s \<in> set (sources_or_empty (ar_sources r)).
       us_exactText (adaptBackendSource s) = or_default (rs_exactText s) (or_default (rs_content s) [])) \<and>
   (\<exists>label. rs_section (enhanced_source source) = Some label \<and> label \<noteq> [] \<and>
        (\<not> truthy (cs_section source) \<longrightarrow> label = ''Page '' @ string_of_int (cs_page source)))"
proof (intro conjI)
  show "map us_page (ur_sources (adaptBackendResponse now r))
     = map (\<lambda>s. page_or_zero (rs_page s)) (sources_or_empty (ar_sources r))"
    by (simp add: adaptBackendResponse_sources adaptBackendSource_def comp_def)
  show "(\<forall>s \<in> set (sources_or_empty (ar_sources r)). \<forall>p. rs_page s = Some p \<longrightarrow> 0 \<le> p) \<longrightarrow>
      (\<forall>c \<in> set (ur_sources (adaptBackendResponse now r)). 0 \<le> us_page c)"
  proof (intro impI ballI)
    fix c
    assume ok: "\<forall>s \<in> set (sources_or_empty (ar_sources r)). \<forall>p. rs_page s = Some p \<longrightarrow> 0 \<le> p"
      and "c \<in> set (ur_sources (adaptBackendResponse now r))"
    then obtain s where s: "s \<in> set (sources_or_empty (ar_sources r))" and c: "c = adaptBackendSource s"
      by (auto simp: adaptBackendResponse_sources)
    from ok s have "0 \<le> page_or_zero (rs_page s)"
      by (intro page_or_zero_nonneg) blast
    then show "0 \<le> us_page c"
      by (simp add: c adaptBackendSource_def)
  qed
  show "\<forall>c \<in> set (ur_sources (adaptBackendResponse now r)). us_section c \<noteq> []"
    by (auto simp: adaptBackendResponse_sources adaptBackendSource_section_nonempty)
  show "\<forall>s \<in> set (sources_or_empty (ar_sources r)).
       \<not> truthy (rs_section s) \<longrightarrow> us_section (adaptBackendSource s) = ''Document Section''"
    by (simp add: adaptBackendSource_def or_default_absent)
  show "\<forall>s \<in> set (sources_or_empty (ar_sources r)).
       \<forall>label. rs_section s = Some label \<and> label \<noteq> [] \<longrightarrow> us_section (adaptBackendSource s) = label"
    by (simp add: adaptBackendSource_def or_default_def)
  show "\<forall>s \<in> set (sources_or_empty (ar_sources r)).
       us_exactText (adaptBackendSource s) = or_default (rs_exactText s) (or_default (rs_content s) [])"
    by (simp add: adaptBackendSource_def)
  show "\<exists>label. rs_section (enhanced_source source) = Some label \<and> label \<noteq> [] \<and>
        (\<not> truthy (cs_section source) \<longrightarrow> label = ''Page '' @ string_of_int (cs_page source))"
    by (rule enhanced_source_section)
qed

theorem citations_page_and_section_witness:
  "map us_page (ur_sources (adaptBackendResponse 1000 (response_with [page_only_source, eligibility_source]))) = [3, 3] \<and>
   map us_section (ur_sources (adaptBackendResponse 1000 (response_with [page_only_source, eligibility_source])))
     = [''Document Section'', ''Eligibility''] \<and>
   rs_section (enhanced_source coarse_source) = Some ''Page 12''"
proof -
  have pages: "\<forall>s \<in> set (sources_or_empty (ar_sources (response_with [page_only_source, eligibility_source]))).
                 \<forall>p. rs_page s = Some p \<longrightarrow> 0 \<le> p"
    by (simp add: sources_or_empty_def response_with_def page_only_source_def eligibility_source_def)
  have absent: "\<not> truthy (cs_section coarse_source)" "\<not> truthy (rs_section page_only_source)"
    by (simp_all add: coarse_source_def page_only_source_def truthy_def)
  have twelve: "string_of_int (cs_page coarse_source) = ''12''"
    unfolding coarse_source_def by code_simp
  show ?thesis
    using citations_page_and_section[of 1000 "response_with [page_only_source, eligibility_source]" coarse_source]
          pages absent twelve
    by (simp add: sources_or_empty_def response_with_def page_or_zero_def page_only_source_def
                  eligibility_source_def adaptBackendResponse_def adaptBackendSource_def or_default_def)
qed

section \<open>The cost of a language-model answer\<close>

lemma bitlen_bounds_rat:
  assumes "0 < (n::int)"
  shows "(2::rat) powi (bitlen n - 1) \<le> of_int n" "of_int n + 1 \<le> (2::rat) powi (bitlen n)"
proof -
  from bitlen_bounds[OF assms] have a: "2 ^ nat (bitlen n - 1) \<le> n" and b: "n + 1 \<le> 2 ^ nat (bitlen n)"
    by auto
  have pos: "0 < bitlen n"
    using assms bitlen_eq_zero_iff[of n] bitlen_nonneg[of n] by linarith
  have "(2::rat) powi (bitlen n - 1) = 2 ^ nat (bitlen n - 1)"
    using pos by (simp add: power_int_def)
  also have "\<dots> = of_int (2 ^ nat (bitlen n - 1))"
    by simp
  also have "\<dots> \<le> of_int n"
    using a by (simp only: of_int_le_iff)
  finally show "(2::rat) powi (bitlen n - 1) \<le> of_int n" .
  have "(of_int n :: rat) + 1 = of_int (n + 1)"
    by simp
  also have "\<dots> \<le> of_int (2 ^ nat (bitlen n))"
    using b by (simp only: of_int_le_iff)
  also have "\<dots> = 2 ^ nat (bitlen n)"
    by simp
  also have "\<dots> = (2::rat) powi (bitlen n)"
    using pos by (simp add: power_int_def)
  finally show "of_int n + 1 \<le> (2::rat) powi (bitlen n)" .
qed

lemma ilog2_lower:
  assumes "0 < x"
  shows "2 powi (ilog2 x) \<le> x"
proof (cases "1 \<le> x")
  case True
  then have n: "0 < \<lfloor>x\<rfloor>" by linarith
  have "2 powi (bitlen \<lfloor>x\<rfloor> - 1) \<le> (of_int \<lfloor>x\<rfloor> :: rat)"
    using bitlen_bounds_rat(1)[OF n] .
  also have "\<dots> \<le> x" by (rule of_int_floor_le)
  finally show ?thesis using True by (simp add: ilog2_def)
next
  case False
  let ?y = "1 / x"
  let ?m = "\<lceil>?y\<rceil> - 1"
  from False assms have y: "1 < ?y" by simp
  then have m: "0 < ?m" by linarith
  have "?y \<le> of_int \<lceil>?y\<rceil>" by (rule le_of_int_ceiling)
  also have "\<dots> = of_int ?m + 1" by simp
  also have "\<dots> \<le> 2 powi (bitlen ?m)"
    using bitlen_bounds_rat(2)[OF m] .
  finally have le: "?y \<le> 2 powi (bitlen ?m)" .
  have "2 powi (- bitlen ?m) = inverse ((2::rat) powi (bitlen ?m))"
    by (simp add: power_int_minus)
  also have "\<dots> \<le> inverse ?y"
    using le assms by (intro le_imp_inverse_le) auto
  also have "\<dots> = x" by (simp add: inverse_eq_divide)
  finally show ?thesis using False by (simp add: ilog2_def)
qed

lemma ilog2_upper:
  assumes "0 < x"
  shows "x < 2 powi (ilog2 x + 1)"
proof (cases "1 \<le> x")
  case True
  then have n: "0 < \<lfloor>x\<rfloor>" by linarith
  have "x < of_int \<lfloor>x\<rfloor> + 1" by linarith
  also have "\<dots> \<le> 2 powi (bitlen \<lfloor>x\<rfloor>)"
    using bitlen_bounds_rat(2)[OF n] .
  finally show ?thesis using True by (simp add: ilog2_def)
next
  case False
  let ?y = "1 / x"
  let ?m = "\<lceil>?y\<rceil> - 1"
  from False assms have y: "1 < ?y" by simp
  then have m: "0 < ?m" by linarith
  have p: "(0::rat) < 2 powi (bitlen ?m - 1)" by simp
  have "2 powi (bitlen ?m - 1) \<le> (of_int ?m :: rat)"
    using bitlen_bounds_rat(1)[OF m] .
  also have "\<dots> < ?y" by linarith
  finally have lt: "2 powi (bitlen ?m - 1) < ?y" .
  have "x = inverse ?y" by (simp add: inverse_eq_divide)
  also have "\<dots> < inverse (2 powi (bitlen ?m - 1))"
    using lt p by (intro less_imp_inverse_less) auto
  also have "\<dots> = 2 powi (- (bitlen ?m - 1))"
    by (simp only: power_int_minus)
  also have "- (bitlen ?m - 1) = - bitlen ?m + 1" by simp
  finally show ?thesis using False by (simp add: ilog2_def)
qed

lemma ilog2_ge:
  assumes "2 powi k \<le> x"
  shows "k \<le> ilog2 x"
proof (rule ccontr)
  assume "\<not> k \<le> ilog2 x"
  then have "ilog2 x + 1 \<le> k" by simp
  then have "(2::rat) powi (ilog2 x + 1) \<le> 2 powi k"
    by (intro power_int_increasing) auto
  moreover have "0 < x"
    using assms by (rule less_le_trans[rotated]) simp
  then have "x < 2 powi (ilog2 x + 1)" by (rule ilog2_upper)
  ultimately show False using assms by linarith
qed

lemma round_half_even_ge_floor: "\<lfloor>y\<rfloor> \<le> round_half_even y"
  by (simp add: round_half_even_def Let_def)

lemma round_half_even_ge: "of_int n \<le> y \<Longrightarrow> n \<le> round_half_even y"
  using round_half_even_ge_floor[of y] le_floor_iff[of n y] by linarith

lemma nearest_double_nonneg: "0 \<le> x \<Longrightarrow> 0 \<le> nearest_double x"
proof -
  assume x: "0 \<le> x"
  show ?thesis
  proof (cases "x = 0")
    case True
    then show ?thesis by (simp add: nearest_double_def)
  next
    case False
    with x have pos: "0 < x" by simp
    let ?q = "2 powi (max (ilog2 x) (- 1022) - 52) :: rat"
    have q: "0 < ?q" by simp
    have "0 \<le> x / ?q" using pos q by simp
    then have "0 \<le> round_half_even (x / ?q)"
      using round_half_even_ge[of 0 "x / ?q"] by simp
    then have "0 \<le> (of_int (round_half_even (x / ?q)) :: rat) * ?q"
      using q by simp
    then show ?thesis
      using pos by (simp add: nearest_double_def Let_def)
  qed
qed

lemma nearest_double_ge:
  assumes k: "- 1022 \<le> k" and x: "2 powi k \<le> x"
  shows "2 powi k \<le> nearest_double x"
proof -
  have pos: "0 < x"
    using x by (rule less_le_trans[rotated]) simp
  have ke: "k \<le> ilog2 x" using x by (rule ilog2_ge)
  then have e: "max (ilog2 x) (- 1022) = ilog2 x" using k by simp
  let ?e = "ilog2 x"
  let ?q = "2 powi (?e - 52) :: rat"
  have q: "0 < ?q" by simp
  have split: "(2::rat) powi ?e = 2 ^ 52 * ?q"
  proof -
    have "(2::rat) powi ?e = 2 powi (52 + (?e - 52))" by simp
    also have "\<dots> = 2 powi 52 * 2 powi (?e - 52)"
      by (rule power_int_add) simp
    finally show ?thesis by simp
  qed
  have "(2::rat) ^ 52 * ?q \<le> x"
    using ilog2_lower[OF pos] split by simp
  then have "(2::rat) ^ 52 \<le> x / ?q"
    using q by (simp add: pos_le_divide_eq)
  then have "of_int (2 ^ 52) \<le> x / ?q" by simp
  then have "2 ^ 52 \<le> round_half_even (x / ?q)"
    by (rule round_half_even_ge)
  then have "(of_int (2 ^ 52) :: rat) \<le> of_int (round_half_even (x / ?q))"
    by (simp only: of_int_le_iff)
  then have "(2::rat) ^ 52 * ?q \<le> of_int (round_half_even (x / ?q)) * ?q"
    using q by simp
  then have "2 powi ?e \<le> nearest_double x"
    using pos e split by (simp add: nearest_double_def Let_def)
  moreover have "(2::rat) powi k \<le> 2 powi ?e"
    using ke by (intro power_int_increasing) auto
  ultimately show ?thesis by linarith
qed

lemma to_number_at_least:
  assumes "- 1022 \<le> k" and "2 powi k \<le> x"
  shows "at_least (2 powi k) (to_number x)"
proof -
  have ge: "2 powi k \<le> nearest_double x"
    using assms by (rule nearest_double_ge)
  moreover have "(0::rat) < 2 powi k" by simp
  ultimately have pos: "0 < nearest_double x" by linarith
  have "(0::rat) < 2 ^ 1024" by (rule zero_less_power) simp
  with pos have n: "\<not> nearest_double x \<le> - (2 ^ 1024)" by linarith
  show ?thesis
  proof (cases "2 ^ 1024 \<le> nearest_double x")
    case True
    then show ?thesis by (simp only: to_number_def Let_def at_least_def if_True number.case)
  next
    case False
    then show ?thesis using n ge by (simp only: to_number_def Let_def at_least_def if_False number.case)
  qed
qed

lemma to_number_nonneg:
  assumes "0 \<le> x"
  shows "at_least 0 (to_number x)"
proof -
  have nn: "0 \<le> nearest_double x"
    using assms by (rule nearest_double_nonneg)
  have "(0::rat) < 2 ^ 1024" by (rule zero_less_power) simp
  with nn have n: "\<not> nearest_double x \<le> - (2 ^ 1024)" by linarith
  show ?thesis
  proof (cases "2 ^ 1024 \<le> nearest_double x")
    case True
    then show ?thesis by (simp only: to_number_def Let_def at_least_def if_True number.case)
  next
    case False
    then show ?thesis using n nn by (simp only: to_number_def Let_def at_least_def if_False number.case)
  qed
qed

lemma at_least_cases:
  assumes "at_least r a"
  obtains (fin) v where "a = Finite v" "r \<le> v" | (inf) "a = PosInfinity"
  using assms by (cases a) (auto simp: at_least_def)

lemma at_least_weaken: "at_least r a \<Longrightarrow> s \<le> r \<Longrightarrow> at_least s a"
  by (cases a) (auto simp: at_least_def)

lemma js_multiply_at_least:
  assumes a: "at_least (2 powi i) a" and c: "2 powi j \<le> c" and k: "- 1022 \<le> i + j"
  shows "at_least (2 powi (i + j)) (js_multiply a (Finite c))"
  using a
proof (cases rule: at_least_cases)
  case (fin v)
  have cpos: "0 < c" using c by (rule less_le_trans[rotated]) simp
  have "(2::rat) powi (i + j) = 2 powi i * 2 powi j"
    by (rule power_int_add) simp
  also have "\<dots> \<le> v * c"
    using fin(2) c by (intro mult_mono) (auto intro: order_trans[rotated])
  finally have "at_least (2 powi (i + j)) (to_number (v * c))"
    using k by (intro to_number_at_least)
  then show ?thesis
    using fin(1) by (simp add: js_multiply_def)
next
  case inf
  have "0 < c" using c by (rule less_le_trans[rotated]) simp
  then show ?thesis
    using inf by (simp add: js_multiply_def sign_of_def signed_infinity_def at_least_def)
qed

lemma js_add_at_least:
  assumes a: "at_least (2 powi k) a" and b: "at_least 0 b" and k: "- 1022 \<le> k"
  shows "at_least (2 powi k) (js_add a b)" "at_least (2 powi k) (js_add b a)"
proof -
  have "at_least (2 powi k) (js_add a b) \<and> at_least (2 powi k) (js_add b a)"
    using a
  proof (cases rule: at_least_cases)
    case (fin v)
    from b show ?thesis
    proof (cases rule: at_least_cases)
      case (fin u)
      have "2 powi k \<le> v + u" "2 powi k \<le> u + v"
        using \<open>2 powi k \<le> v\<close> fin(2) by auto
      then have "at_least (2 powi k) (to_number (v + u))" "at_least (2 powi k) (to_number (u + v))"
        using k by (auto intro: to_number_at_least)
      then show ?thesis
        using fin(1) \<open>a = Finite v\<close> by (simp add: js_add_def)
    next
      case inf
      then show ?thesis
        using fin(1) by (simp add: js_add_def at_least_def)
    qed
  next
    case inf
    from b show ?thesis
    proof (cases rule: at_least_cases)
      case (fin u)
      then show ?thesis using inf by (simp add: js_add_def at_least_def)
    next
      case inf': inf
      then show ?thesis using inf by (simp add: js_add_def at_least_def)
    qed
  qed
  then show "at_least (2 powi k) (js_add a b)" "at_least (2 powi k) (js_add b a)"
    by auto
qed

lemma js_divide_at_least:
  assumes a: "at_least (2 powi i) a" and d: "0 < d" "d \<le> 2 powi j" and k: "- 1022 \<le> i - j"
  shows "at_least (2 powi (i - j)) (js_divide a (Finite d))"
  using a
proof (cases rule: at_least_cases)
  case (fin v)
  have "(2::rat) powi (i - j) = 2 powi i / 2 powi j"
    by (rule power_int_diff) simp
  also have "\<dots> \<le> v / d"
    using fin(2) d by (intro frac_le) (auto intro: order_trans[rotated])
  finally have "at_least (2 powi (i - j)) (to_number (v / d))"
    using k by (intro to_number_at_least)
  then show ?thesis
    using fin(1) d(1) by (simp add: js_divide_def)
next
  case inf
  then show ?thesis
    using d(1) by (simp add: js_divide_def sign_of_def signed_infinity_def at_least_def)
qed

lemma number_of_nat_at_least:
  "0 < n \<Longrightarrow> at_least (2 powi 0) (number_of_nat n)" "at_least 0 (number_of_nat n)"
proof -
  show "at_least 0 (number_of_nat n)"
    unfolding number_of_nat_def by (rule to_number_nonneg) simp
  assume "0 < n"
  then have "(2::rat) powi 0 \<le> of_nat n" by simp
  then show "at_least (2 powi 0) (number_of_nat n)"
    unfolding number_of_nat_def by (intro to_number_at_least) auto
qed

lemma js_multiply_nonneg:
  assumes a: "at_least 0 a" and c: "0 < c"
  shows "at_least 0 (js_multiply a (Finite c))"
  using a
proof (cases rule: at_least_cases)
  case (fin v)
  then have "0 \<le> v * c" using c by simp
  then have "at_least 0 (to_number (v * c))" by (rule to_number_nonneg)
  then show ?thesis using fin(1) by (simp add: js_multiply_def)
next
  case inf
  then show ?thesis
    using c by (simp add: js_multiply_def sign_of_def signed_infinity_def at_least_def)
qed

text \<open>Evaluating a rounding whose result is in range.\<close>

lemma to_number_Finite:
  assumes "nearest_double x = r" and "- (2 ^ 1024) < r" and "r < 2 ^ 1024"
  shows "to_number x = Finite r"
  using assms by (simp only: to_number_def Let_def not_le[symmetric] if_False)

lemma nearest_rate_in: "nearest_double (8 / 10) = 3602879701896397 / 4503599627370496"
  by code_simp

lemma nearest_4: "nearest_double 4 = 4"
  by code_simp

lemma nearest_million: "nearest_double 1000000 = 1000000"
  by code_simp

lemma nearest_1000: "nearest_double 1000 = 1000"
  by code_simp

lemma nearest_500: "nearest_double 500 = 500"
  by code_simp

lemma nearest_800: "nearest_double (1000 * (3602879701896397 / 4503599627370496)) = 800"
  by code_simp

lemma nearest_2000: "nearest_double 2000 = 2000"
  by code_simp

lemma nearest_2800: "nearest_double 2800 = 2800"
  by code_simp

lemma nearest_0028: "nearest_double (28 / 10000) = 6456360425798343 / 2305843009213693952"
  by code_simp

lemma rate_in: "to_number (8 / 10) = Finite (3602879701896397 / 4503599627370496)"
  by (rule to_number_Finite[OF nearest_rate_in]) simp_all

lemma rate_out: "to_number 4 = Finite 4"
  by (rule to_number_Finite[OF nearest_4]) simp_all

lemma million: "to_number 1000000 = Finite 1000000"
  by (rule to_number_Finite[OF nearest_million]) simp_all

lemma cost_1000_500:
  "js_divide (js_add (js_multiply (number_of_nat 1000) (to_number (8 / 10)))
                     (js_multiply (number_of_nat 500) (to_number 4)))
             (to_number 1000000)
     = to_number (28 / 10000)"
proof -
  have a: "number_of_nat 1000 = Finite 1000"
    unfolding number_of_nat_def by (simp only: of_nat_numeral) (rule to_number_Finite[OF nearest_1000], simp_all)
  have b: "number_of_nat 500 = Finite 500"
    unfolding number_of_nat_def by (simp only: of_nat_numeral) (rule to_number_Finite[OF nearest_500], simp_all)
  have t1: "js_multiply (Finite 1000) (Finite (3602879701896397 / 4503599627370496)) = Finite 800"
    unfolding js_multiply_def by (simp only: number.distinct simp_thms if_False prod.case number.case)
      (rule to_number_Finite[OF nearest_800], simp_all)
  have t2: "js_multiply (Finite 500) (Finite 4) = Finite 2000"
  proof -
    have "to_number 2000 = Finite 2000"
      by (rule to_number_Finite[OF nearest_2000]) simp_all
    then show ?thesis by (simp add: js_multiply_def)
  qed
  have s: "js_add (Finite 800) (Finite 2000) = Finite 2800"
  proof -
    have "to_number 2800 = Finite 2800"
      by (rule to_number_Finite[OF nearest_2800]) simp_all
    then show ?thesis by (simp add: js_add_def)
  qed
  have d: "js_divide (Finite 2800) (Finite 1000000) = to_number (28 / 10000)"
    by (simp add: js_divide_def)
  show ?thesis
    by (simp only: a b rate_in rate_out million t1 t2 s d)
qed

lemma literal_0028: "to_number (28 / 10000) = Finite (6456360425798343 / 2305843009213693952)"
  by (rule to_number_Finite[OF nearest_0028]) simp_all

lemma cost_positive:
  assumes "0 < i + j"
  shows "at_least (2 powi (- 21))
           (js_divide (js_add (js_multiply (number_of_nat i) (to_number (8 / 10)))
                              (js_multiply (number_of_nat j) (to_number 4)))
                      (to_number 1000000))"
proof -
  let ?t1 = "js_multiply (number_of_nat i) (Finite (3602879701896397 / 4503599627370496))"
  let ?t2 = "js_multiply (number_of_nat j) (Finite 4)"
  have half: "(2::rat) powi (- 1) \<le> 3602879701896397 / 4503599627370496"
    by (simp add: power_int_minus)
  have four: "(2::rat) powi 2 \<le> 4"
    by simp
  have t1_nonneg: "at_least 0 ?t1"
    by (rule js_multiply_nonneg[OF number_of_nat_at_least(2)]) simp
  have t2_nonneg: "at_least 0 ?t2"
    by (rule js_multiply_nonneg[OF number_of_nat_at_least(2)]) simp
  have sum: "at_least (2 powi (- 1)) (js_add ?t1 ?t2)"
  proof (cases "0 < i")
    case True
    have "at_least (2 powi (0 + - 1)) ?t1"
      by (rule js_multiply_at_least[OF number_of_nat_at_least(1)[OF True] half]) simp
    then have "at_least (2 powi (- 1)) ?t1" by simp
    then show ?thesis
      by (rule js_add_at_least(1)[OF _ t2_nonneg]) simp
  next
    case False
    with assms have j: "0 < j" by simp
    have "at_least (2 powi (0 + 2)) ?t2"
      by (rule js_multiply_at_least[OF number_of_nat_at_least(1)[OF j] four]) simp
    moreover have "(2::rat) powi (- 1) \<le> 2 powi (0 + 2)"
      by (intro power_int_increasing) auto
    ultimately have "at_least (2 powi (- 1)) ?t2"
      by (rule at_least_weaken)
    then show ?thesis
      by (rule js_add_at_least(2)[OF _ t1_nonneg]) simp
  qed
  have "at_least (2 powi (- 1 - 20)) (js_divide (js_add ?t1 ?t2) (Finite 1000000))"
    by (rule js_divide_at_least[OF sum]) simp_all
  moreover have "(- 1 - 20 :: int) = - 21"
    by simp
  ultimately have "at_least (2 powi (- 21)) (js_divide (js_add ?t1 ?t2) (Finite 1000000))"
    by (simp only:)
  then show ?thesis
    by (simp only: rate_in rate_out million)
qed

lemma at_least_nonzero:
  assumes "at_least (2 powi k) c"
  shows "c \<noteq> Finite 0"
proof
  assume "c = Finite 0"
  with assms have "(2::rat) powi k \<le> 0"
    by (simp add: at_least_def)
  moreover have "(0::rat) < 2 powi k"
    by simp
  ultimately show False
    by linarith
qed

text \<open>
  C10. \<open>adaptAnthropicResponse\<close> reports the cost
  \<^verbatim>\<open>(inputTokens*0.8 + outputTokens*4)/1000000\<close>, computed in double arithmetic. For 1000
  input and 500 output tokens it is the double \<^verbatim>\<open>0.0028\<close>. Whenever any tokens were
  consumed the cost is not zero: it is at least \<open>2 powi - 21\<close>.
\<close>

theorem anthropic_cost:
  "ur_cost (adaptAnthropicResponse now resp url i j)
     = Some (spec_cost (to_number (8 / 10)) (to_number 4) (number_of_nat i) (number_of_nat j)) \<and>
   ur_cost (adaptAnthropicResponse now resp url 1000 500) = Some (to_number (28 / 10000)) \<and>
   (0 < i + j \<longrightarrow>
      (\<exists>c. ur_cost (adaptAnthropicResponse now resp url i j) = Some c \<and>
           c \<noteq> Finite 0 \<and> at_least (2 powi (- 21)) c))"
proof (intro conjI impI)
  show "ur_cost (adaptAnthropicResponse now resp url i j)
     = Some (spec_cost (to_number (8 / 10)) (to_number 4) (number_of_nat i) (number_of_nat j))"
    by (simp add: adaptAnthropicResponse_def spec_cost_def Let_def)
  show "ur_cost (adaptAnthropicResponse now resp url 1000 500) = Some (to_number (28 / 10000))"
    by (simp only: adaptAnthropicResponse_def Let_def UnifiedAIResponse.simps cost_1000_500)
next
  assume "0 < i + j"
  then have "at_least (2 powi (- 21))
           (js_divide (js_add (js_multiply (number_of_nat i) (to_number (8 / 10)))
                              (js_multiply (number_of_nat j) (to_number 4)))
                      (to_number 1000000))"
    by (rule cost_positive)
  then show "\<exists>c. ur_cost (adaptAnthropicResponse now resp url i j) = Some c \<and>
           c \<noteq> Finite 0 \<and> at_least (2 powi (- 21)) c"
    using at_least_nonzero by (simp only: adaptAnthropicResponse_def Let_def UnifiedAIResponse.simps) blast
qed

theorem anthropic_cost_witness:
  "ur_cost (adaptAnthropicResponse 1000 claude_reply ''https://files.example/protocol.pdf'' 1000 500)
     = Some (Finite (6456360425798343 / 2305843009213693952)) \<and>
   (\<exists>c. ur_cost (adaptAnthropicResponse 1000 claude_reply ''https://files.example/protocol.pdf'' 1 0) = Some c \<and>
        c \<noteq> Finite 0 \<and> at_least (2 powi (- 21)) c)"
proof -
  note c = anthropic_cost[of 1000 claude_reply "''https://files.example/protocol.pdf''" 1 0]
  have pos: "0 < (1::nat) + 0"
    by simp
  from c have "ur_cost (adaptAnthropicResponse 1000 claude_reply ''https://files.example/protocol.pdf'' 1000 500)
                 = Some (to_number (28 / 10000))"
    by blast
  then have a: "ur_cost (adaptAnthropicResponse 1000 claude_reply ''https://files.example/protocol.pdf'' 1000 500)
                 = Some (Finite (6456360425798343 / 2305843009213693952))"
    by (simp only: literal_0028)
  from c pos have b: "\<exists>c. ur_cost (adaptAnthropicResponse 1000 claude_reply ''https://files.example/protocol.pdf'' 1 0) = Some c \<and>
        c \<noteq> Finite 0 \<and> at_least (2 powi (- 21)) c"
    by blast
  from a b show ?thesis
    by blast
qed

end
